theory Spec2Isabelle
  imports Complex_Main "HOL-Library.Word"
begin

unbundle bit_operations_syntax

section \<open>Buffers and numbers\<close>

text \<open>
  A Node \<open>Buffer\<close> is a list of bytes. JavaScript numbers that the code only ever holds as
  non-negative integers (lengths, offsets, command codes, cookies, ports, unsigned reads)
  are \<open>nat\<close>; the signed 16-bit gain reads are \<open>int\<close>; the 32-bit operands of the bitwise
  operators (\<open>^\<close>, \<open>&\<close>, \<open>>>\<close>) are \<open>32 word\<close>, as JavaScript converts them to Int32.
  Reading a typed array out of range yields \<open>undefined\<close>, which is \<open>None\<close> here; the
  \<open>read*LE\<close> methods throw a RangeError instead.
\<close>

type_synonym byte = "8 word"
type_synonym buffer = "byte list"

datatype error =
    FrameTooShort      \<comment> \<open>\<open>Error('UDP frame too short')\<close>\<close>
  | BadSTX             \<comment> \<open>\<open>Error('Bad STX')\<close>\<close>
  | TruncatedFrame     \<comment> \<open>\<open>Error('Truncated frame')\<close>\<close>
  | UnexpectedCmd      \<comment> \<open>\<open>Error('Unexpected cmd in response')\<close>\<close>
  | CookieMismatch     \<comment> \<open>\<open>Error('Cookie mismatch')\<close>\<close>
  | UdpTimeout         \<comment> \<open>\<open>Error('UDP timeout')\<close>\<close>
  | TransportError     \<comment> \<open>an error of the socket (bind or send)\<close>
  | RangeError         \<comment> \<open>a \<open>read*LE\<close> past the end of the buffer\<close>

definition bind_err :: "error + 'a \<Rightarrow> ('a \<Rightarrow> error + 'b) \<Rightarrow> error + 'b" where
  "bind_err r f = (case r of Inl e \<Rightarrow> Inl e | Inr v \<Rightarrow> f v)"

definition buf_at :: "buffer \<Rightarrow> nat \<Rightarrow> byte option" where
  "buf_at buf i = (if i < length buf then Some (buf ! i) else None)"

definition readUInt16LE :: "buffer \<Rightarrow> nat \<Rightarrow> error + nat" where
  "readUInt16LE buf off =
     (if off + 2 \<le> length buf
      then Inr (unat (buf ! off) + 256 * unat (buf ! (off + 1)))
      else Inl RangeError)"

text \<open>
  The value of a little-endian signed 16-bit and unsigned 32-bit field, as Node computes
  it from the bytes; \<open>readInt16LE\<close> and \<open>readUInt32LE\<close> add the range check.
\<close>

definition s16le :: "buffer \<Rightarrow> nat \<Rightarrow> int" where
  "s16le buf off =
     (let v = unat (buf ! off) + 256 * unat (buf ! (off + 1))
      in if v \<ge> 32768 then int v - 65536 else int v)"

definition u32le :: "buffer \<Rightarrow> nat \<Rightarrow> 32 word" where
  "u32le buf off =
     of_nat (unat (buf ! off) + 256 * unat (buf ! (off + 1))
       + 65536 * unat (buf ! (off + 2)) + 16777216 * unat (buf ! (off + 3)))"

definition readInt16LE :: "buffer \<Rightarrow> nat \<Rightarrow> error + int" where
  "readInt16LE buf off =
     (if off + 2 \<le> length buf then Inr (s16le buf off) else Inl RangeError)"

definition readUInt32LE :: "buffer \<Rightarrow> nat \<Rightarrow> error + 32 word" where
  "readUInt32LE buf off =
     (if off + 4 \<le> length buf then Inr (u32le buf off) else Inl RangeError)"

text \<open>
  \<open>writeUInt16LE\<close> stores the low byte, then the high byte. The values written by
  \<open>buildFrame\<close> are masked to 16 bits and the offsets lie inside the buffer, so the
  method's own range checks never fire there.
\<close>

definition writeUInt16LE :: "buffer \<Rightarrow> nat \<Rightarrow> nat \<Rightarrow> buffer" where
  "writeUInt16LE out v off = out[off := of_nat v, off + 1 := of_nat (v div 256)]"

text \<open>The two bytes \<open>writeUInt16LE\<close> stores, as a list: low byte first.\<close>

definition le16 :: "nat \<Rightarrow> buffer" where
  "le16 v = [of_nat v, of_nat (v div 256)]"

text \<open>\<open>data.copy(out, o)\<close>: copies as many bytes of \<open>data\<close> as fit behind offset \<open>o\<close>.\<close>

definition copy_into :: "buffer \<Rightarrow> buffer \<Rightarrow> nat \<Rightarrow> buffer" where
  "copy_into data out off =
     take off out @ take (length out - off) data @ drop (off + length data) out"

text \<open>\<open>msg.subarray(s, e)\<close>, with Node's clamping of both ends to the buffer.\<close>

definition subarray :: "buffer \<Rightarrow> nat \<Rightarrow> nat \<Rightarrow> buffer" where
  "subarray msg s e = take (e - s) (drop s msg)"

section \<open>Command codes\<close>

definition CMD_READGM :: nat where "CMD_READGM = 0x01"
definition CMD_INFO :: nat where "CMD_INFO = 0x0b"
definition CMD_STANDBY :: nat where "CMD_STANDBY = 0x0e"
definition CMD_READALLALARMS2 :: nat where "CMD_READALLALARMS2 = 0x19"

section \<open>Checksum\<close>

text \<open>
  \<open>crc16IBM\<close> as the source computes it, on JavaScript's 32-bit integers: \<open>crc ^= buf[..]\<close>
  (an out-of-range read is \<open>undefined\<close> and xors 0), then eight rounds of
  \<open>mix = crc & 1; crc >>= 1; if (mix) crc ^= 0xa001\<close>, where \<open>>>\<close> is the signed shift.
\<close>

definition crc_round :: "32 word \<Rightarrow> 32 word" where
  "crc_round crc =
     (let mix = crc AND 1;
          crc1 = signed_drop_bit 1 crc
      in if mix \<noteq> 0 then crc1 XOR 0xa001 else crc1)"

definition crc_byte :: "buffer \<Rightarrow> nat \<Rightarrow> nat \<Rightarrow> 32 word \<Rightarrow> 32 word" where
  "crc_byte buf off i crc =
     (crc_round ^^ 8)
       (crc XOR (case buf_at buf (off + i) of None \<Rightarrow> 0 | Some b \<Rightarrow> ucast b))"

definition crc16IBM :: "buffer \<Rightarrow> nat \<Rightarrow> nat \<Rightarrow> nat" where
  "crc16IBM buf off len = unat (fold (crc_byte buf off) [0..<len] 0xffff AND 0xffff)"

text \<open>
  The checksum in the words of the specification, for comparison: a 16-bit register,
  initially \<open>0xFFFF\<close>; for every byte, the byte is xored into the register and the
  register is shifted right eight times, least significant bit first, the feedback value
  \<open>0xA001\<close> being xored in whenever the bit shifted out is set.
\<close>

definition spec_crc_shift :: "16 word \<Rightarrow> 16 word" where
  "spec_crc_shift reg =
     (if bit reg 0 then drop_bit 1 reg XOR 0xA001 else drop_bit 1 reg)"

definition spec_crc16 :: "buffer \<Rightarrow> 16 word" where
  "spec_crc16 bs = fold (\<lambda>b reg. (spec_crc_shift ^^ 8) (reg XOR ucast b)) bs 0xFFFF"

section \<open>Frame codec\<close>

definition buildFrame :: "nat \<Rightarrow> nat \<Rightarrow> nat \<Rightarrow> buffer \<Rightarrow> bool \<Rightarrow> buffer" where
  "buildFrame cmd cookie answerPort data forceZeroCrc =
     (let count = length data;
          headerLen = 1 + 1 + 2 + 2 + 2;
          trailerLen = 2 + 1 + 1;
          total = headerLen + count + trailerLen;
          out0 = replicate total (0 :: byte);
          out1 = out0[0 := 0x02];
          out2 = out1[1 := of_nat (cmd mod 256)];
          out3 = writeUInt16LE out2 (cookie mod 65536) 2;
          out4 = writeUInt16LE out3 (count mod 65536) 4;
          out5 = writeUInt16LE out4 (answerPort mod 65536) 6;
          out6 = (if count > 0 then copy_into data out5 8 else out5);
          off = 8 + count;
          crc = (if \<not> forceZeroCrc then crc16IBM out6 0 (8 + count) else 0);
          out7 = writeUInt16LE out6 (crc mod 65536) off;
          out8 = out7[off + 2 := NOT (of_nat cmd)];
          out9 = out8[off + 3 := 0x03]
      in out9)"

text \<open>
  The object \<open>parseHeader\<close> returns. Its fields carry the prefix \<open>h_\<close>, since a record
  field is a constant of the theory and the source's names are needed for variables.
\<close>

record header =
  h_STX :: nat
  h_cmd :: nat
  h_cookie :: nat
  h_count :: nat
  h_answerPort :: nat
  h_data :: buffer
  h_crc16 :: nat
  h_notCmd :: nat
  h_ETX :: nat

definition parseHeader :: "buffer \<Rightarrow> error + header" where
  "parseHeader msg =
     (if length msg < 12 then Inl FrameTooShort
      else
        let STX = unat (msg ! 0);
            cmd = unat (msg ! 1)
        in bind_err (readUInt16LE msg 2) (\<lambda>cookie.
           bind_err (readUInt16LE msg 4) (\<lambda>count.
           bind_err (readUInt16LE msg 6) (\<lambda>answerPort.
             let dataStart = 8;
                 dataEnd = dataStart + count
             in if STX \<noteq> 0x02 then Inl BadSTX
                else if length msg < dataEnd + 4 then Inl TruncatedFrame
                else bind_err (readUInt16LE msg dataEnd) (\<lambda>crc16.
                  let notCmd = unat (msg ! (dataEnd + 1));
                      ETX = unat (msg ! (dataEnd + 2));
                      data = subarray msg dataStart dataEnd
                  in Inr \<lparr>h_STX = STX, h_cmd = cmd, h_cookie = cookie, h_count = count,
                          h_answerPort = answerPort, h_data = data, h_crc16 = crc16,
                          h_notCmd = notCmd, h_ETX = ETX\<rparr>)))))"

section \<open>Payload decoders\<close>

text \<open>
  The decoded objects are records whose optional fields are options, so that "unset"
  (\<open>undefined\<close>) is told apart from \<open>false\<close>. Field names carry a prefix per record.
\<close>

record standby_result =
  sb_ok :: bool
  sb_standbyRaw :: "nat option"

definition parseStandbyData :: "buffer \<Rightarrow> standby_result" where
  "parseStandbyData data =
     (if length data \<ge> 2
      then (let answer_ok = data ! 0;
                on_off = data ! 1
            in \<lparr>sb_ok = (answer_ok = 1), sb_standbyRaw = Some (unat on_off)\<rparr>)
      else \<lparr>sb_ok = False, sb_standbyRaw = None\<rparr>)"

text \<open>
  Gains are hundredths of a decibel divided by 100. The quotient is taken in the reals;
  the source's IEEE double is the nearest representable number to it.
\<close>

record gm_channel =
  gm_inGain :: "real option"
  gm_outGain :: "real option"
  gm_inMute :: "bool option"
  gm_outMute :: "bool option"

record readgm_result =
  gm_ok :: bool
  gm_channels :: "gm_channel list"

text \<open>
  The loop \<open>for (let i = 0; i < ch; i++)\<close> of \<open>parseReadgmData\<close>: the first argument
  counts the iterations left (\<open>ch - i\<close>), \<open>p\<close> is the read position, and
  \<open>res.channels[i] = ...\<close> appends, since \<open>i\<close> is the number of channels stored so far.
\<close>

fun readgm_loop :: "buffer \<Rightarrow> nat \<Rightarrow> nat \<Rightarrow> gm_channel list \<Rightarrow> error + gm_channel list" where
  "readgm_loop data 0 p chans = Inr chans"
| "readgm_loop data (Suc k) p chans =
     (if p + 6 > length data then Inr chans
      else bind_err (readInt16LE data p) (\<lambda>inGainCent.
           bind_err (readInt16LE data (p + 2)) (\<lambda>outGainCent.
             let inMute = data ! (p + 4);
                 outMute = data ! (p + 5)
             in readgm_loop data k (p + 6)
                  (chans @ [\<lparr>gm_inGain = Some (real_of_int inGainCent / 100),
                              gm_outGain = Some (real_of_int outGainCent / 100),
                              gm_inMute = Some (inMute = 1),
                              gm_outMute = Some (outMute = 1)\<rparr>]))))"

definition parseReadgmData :: "buffer \<Rightarrow> nat \<Rightarrow> error + readgm_result" where
  "parseReadgmData data maxChannels =
     (if length data < 2 then Inr \<lparr>gm_ok = False, gm_channels = []\<rparr>
      else
        let ok = (data ! 0 = 1);
            n = unat (data ! 1);
            ch = min n maxChannels
        in bind_err (readgm_loop data ch 2 []) (\<lambda>chans.
             Inr \<lparr>gm_ok = ok, gm_channels = chans\<rparr>))"

record alarms_result =
  al_ok :: bool
  al_fault :: bool
  al_gpio :: "nat option"
  al_global :: "32 word option"
  al_channelWords :: "32 word list option"

text \<open>
  The loop \<open>for (let i = 0; i < 8 && p + 4 <= data.length; i++)\<close>: the first argument
  counts the iterations left of the eight.
\<close>

fun alarms_loop :: "buffer \<Rightarrow> nat \<Rightarrow> nat \<Rightarrow> 32 word list \<Rightarrow> error + 32 word list" where
  "alarms_loop data 0 p ws = Inr ws"
| "alarms_loop data (Suc k) p ws =
     (if p + 4 \<le> length data
      then bind_err (readUInt32LE data p) (\<lambda>w. alarms_loop data k (p + 4) (ws @ [w]))
      else Inr ws)"

definition parseReadAllAlarms2Data :: "buffer \<Rightarrow> error + alarms_result" where
  "parseReadAllAlarms2Data data =
     (if length data < 1
      then Inr \<lparr>al_ok = False, al_fault = False, al_gpio = None, al_global = None,
                al_channelWords = None\<rparr>
      else
        let ok = (data ! 0 = 1)
        in if \<not> ok
           then Inr \<lparr>al_ok = False, al_fault = False, al_gpio = None, al_global = None,
                     al_channelWords = None\<rparr>
           else if length data < 1 + 1 + 2 + 4
           then Inr \<lparr>al_ok = True, al_fault = False, al_gpio = None, al_global = None,
                     al_channelWords = None\<rparr>
           else
             let gpio = unat (data ! 1);
                 p = 1 + 1 + 2
             in bind_err (readUInt32LE data p) (\<lambda>global.
                bind_err (alarms_loop data 8 (p + 4) []) (\<lambda>channelWords.
                  let fault = (global \<noteq> 0 \<or> list_ex (\<lambda>w. w \<noteq> 0) channelWords)
                  in Inr \<lparr>al_ok = True, al_fault = fault, al_gpio = Some gpio,
                          al_global = Some global,
                          al_channelWords = Some channelWords\<rparr>)))"

section \<open>Transport exchange\<close>

record UdpOptions =
  host :: string
  devicePort :: "nat option"
  answerPortZero :: "bool option"
  timeoutMs :: "nat option"

text \<open>
  What the outside world contributes to one call of \<open>udpRequest\<close>: the outcome of
  \<open>socket.bind\<close> (the bound port, or an error), the cookie drawn from \<open>Math.random\<close>,
  and the events that reach the socket before the timer expires, in order. The timer
  fires after them: with no event at all the exchange ends in \<open>UDP timeout\<close>.
\<close>

datatype event = Message buffer | SendFailed

record exchange_env =
  env_bind :: "error + nat"
  env_cookie :: nat
  env_events :: "event list"

text \<open>\<open>(h.cmd ^ 0xff) & 0xff\<close>, on JavaScript's 32-bit integers.\<close>

definition inv_cmd :: "nat \<Rightarrow> nat" where
  "inv_cmd c = unat (((of_nat c :: 32 word) XOR 0xff) AND 0xff)"

text \<open>The body of the \<open>message\<close> handler, after the timer is cleared and the socket closed.\<close>

definition on_message :: "nat \<Rightarrow> nat \<Rightarrow> buffer \<Rightarrow> error + buffer" where
  "on_message cmd cookie msg =
     (case parseHeader msg of
        Inl e \<Rightarrow> Inl e
      | Inr h \<Rightarrow>
          if inv_cmd (h_cmd h) \<noteq> cmd then Inl UnexpectedCmd
          else if h_cookie h \<noteq> cookie then Inl CookieMismatch
          else Inr (h_data h))"

text \<open>
  The promise settles on the first event: the handler is registered with
  \<open>socket.once\<close>, and every path clears the timer and closes the socket.
\<close>

fun await_reply :: "nat \<Rightarrow> nat \<Rightarrow> event list \<Rightarrow> error + buffer" where
  "await_reply cmd cookie [] = Inl UdpTimeout"
| "await_reply cmd cookie (Message msg # rest) = on_message cmd cookie msg"
| "await_reply cmd cookie (SendFailed # rest) = Inl TransportError"

record exchange =
  ex_frame :: "buffer option"
  ex_result :: "error + buffer"

definition udpRequest :: "UdpOptions \<Rightarrow> exchange_env \<Rightarrow> nat \<Rightarrow> buffer \<Rightarrow> bool \<Rightarrow> exchange" where
  "udpRequest opts env cmd data forceZeroCrc =
     (let cookie = env_cookie env
      in case env_bind env of
           Inl e \<Rightarrow> \<lparr>ex_frame = None, ex_result = Inl e\<rparr>
         | Inr answerPort \<Rightarrow>
             let ap = (if answerPortZero opts = Some True then 0 else answerPort);
                 forceZero = (forceZeroCrc \<or> cmd = CMD_STANDBY);
                 frame = buildFrame cmd cookie ap data forceZero
             in \<lparr>ex_frame = Some frame,
                 ex_result = await_reply cmd cookie (env_events env)\<rparr>)"

section \<open>Status aggregator\<close>

record channel_status =
  ch_mute :: "bool option"
  ch_gain :: "real option"
  ch_clip :: "bool option"
  ch_overTemp :: "bool option"
  ch_lowLoad :: "bool option"
  ch_railFault :: "bool option"
  ch_otherFault :: "bool option"
  ch_thermalSOA :: "bool option"
  ch_auxCurrentFault :: "bool option"

record UdpStatus =
  st_power :: "bool option"
  st_fault :: "bool option"
  st_channels :: "channel_status list"

definition empty_channel :: channel_status where
  "empty_channel = \<lparr>ch_mute = None, ch_gain = None, ch_clip = None, ch_overTemp = None,
                     ch_lowLoad = None, ch_railFault = None, ch_otherFault = None,
                     ch_thermalSOA = None, ch_auxCurrentFault = None\<rparr>"

definition initial_status :: "nat \<Rightarrow> UdpStatus" where
  "initial_status maxChannels =
     \<lparr>st_power = None, st_fault = None, st_channels = replicate maxChannels empty_channel\<rparr>"

text \<open>The three exchanges \<open>readUdpStatus\<close> issues.\<close>

definition standby_exchange :: "UdpOptions \<Rightarrow> exchange_env \<Rightarrow> exchange" where
  "standby_exchange opts env = udpRequest opts env CMD_STANDBY [0, 0, 0, 0] True"

definition readgm_exchange :: "UdpOptions \<Rightarrow> exchange_env \<Rightarrow> exchange" where
  "readgm_exchange opts env = udpRequest opts env CMD_READGM [] False"

definition alarms_exchange :: "UdpOptions \<Rightarrow> exchange_env \<Rightarrow> exchange" where
  "alarms_exchange opts env = udpRequest opts env CMD_READALLALARMS2 [] False"

text \<open>The body of the first \<open>try\<close> block, after the exchange has returned its payload.\<close>

definition merge_standby :: "buffer \<Rightarrow> UdpStatus \<Rightarrow> UdpStatus" where
  "merge_standby standbyData status =
     (let s = parseStandbyData standbyData
      in case sb_standbyRaw s of
           Some raw \<Rightarrow> if sb_ok s then status\<lparr>st_power := Some (raw = 2)\<rparr> else status
         | None \<Rightarrow> status)"

text \<open>
  The assignments of one round of the gain/mute merge loop to \<open>status.channels[i]\<close>:
  \<open>mute = ch.outMute ?? ch.inMute\<close>, and \<open>gain\<close> when the preferred gain is a number.
\<close>

definition gm_update :: "gm_channel \<Rightarrow> channel_status \<Rightarrow> channel_status" where
  "gm_update ch c0 =
     (let c1 = c0\<lparr>ch_mute := (case gm_outMute ch of Some m \<Rightarrow> Some m | None \<Rightarrow> gm_inMute ch)\<rparr>;
          g = (case gm_outGain ch of Some v \<Rightarrow> Some v | None \<Rightarrow> gm_inGain ch)
      in case g of Some v \<Rightarrow> c1\<lparr>ch_gain := Some v\<rparr> | None \<Rightarrow> c1)"

text \<open>
  One round of that loop. The index is below both \<open>gm.channels.length\<close> and
  \<open>maxChannels\<close>, the length of \<open>status.channels\<close>; the decoder's array has no holes, so
  \<open>if (!ch) continue\<close> never skips.
\<close>

definition gm_step :: "gm_channel list \<Rightarrow> nat \<Rightarrow> UdpStatus \<Rightarrow> UdpStatus" where
  "gm_step chans i status =
     (let ch = chans ! i
      in status\<lparr>st_channels := (st_channels status)[i := gm_update ch (st_channels status ! i)]\<rparr>)"

definition merge_readgm :: "buffer \<Rightarrow> nat \<Rightarrow> UdpStatus \<Rightarrow> UdpStatus" where
  "merge_readgm gmData maxChannels status =
     (case parseReadgmData gmData maxChannels of
        Inl e \<Rightarrow> status
      | Inr gm \<Rightarrow>
          if gm_ok gm
          then fold (gm_step (gm_channels gm))
                 [0..<min (length (gm_channels gm)) maxChannels] status
          else status)"

text \<open>\<open>(w & (1 << k)) !== 0\<close>\<close>

definition alarm_bit :: "32 word \<Rightarrow> nat \<Rightarrow> bool" where
  "alarm_bit w k = (w AND push_bit k 1 \<noteq> 0)"

text \<open>The seven assignments made for a channel whose alarm word is not zero.\<close>

definition alarm_flags :: "32 word \<Rightarrow> channel_status \<Rightarrow> channel_status" where
  "alarm_flags w c =
     c\<lparr>ch_clip := Some (alarm_bit w 0),
       ch_thermalSOA := Some (alarm_bit w 1),
       ch_overTemp := Some (alarm_bit w 3),
       ch_railFault := Some (alarm_bit w 4),
       ch_auxCurrentFault := Some (alarm_bit w 5),
       ch_otherFault := Some (alarm_bit w 6),
       ch_lowLoad := Some (alarm_bit w 7)\<rparr>"

definition alarm_step :: "32 word list \<Rightarrow> nat \<Rightarrow> UdpStatus \<Rightarrow> UdpStatus" where
  "alarm_step words i status =
     (let w = words ! i
      in if w \<noteq> 0
         then status\<lparr>st_channels :=
                (st_channels status)[i := alarm_flags w (st_channels status ! i)]\<rparr>
         else status)"

definition merge_alarms :: "buffer \<Rightarrow> nat \<Rightarrow> UdpStatus \<Rightarrow> UdpStatus" where
  "merge_alarms alData maxChannels status =
     (case parseReadAllAlarms2Data alData of
        Inl e \<Rightarrow> status
      | Inr a \<Rightarrow>
          if al_ok a
          then (let status1 = status\<lparr>st_fault := Some (al_fault a)\<rparr>;
                    words = (case al_channelWords a of Some ws \<Rightarrow> ws | None \<Rightarrow> [])
                in fold (alarm_step words) [0..<min (length words) maxChannels] status1)
          else status)"

text \<open>
  \<open>try { ... } catch (_) { }\<close> around an exchange and its merge: a rejected exchange
  leaves the status as it was.
\<close>

definition try_merge :: "exchange \<Rightarrow> (buffer \<Rightarrow> UdpStatus \<Rightarrow> UdpStatus) \<Rightarrow> UdpStatus \<Rightarrow> UdpStatus" where
  "try_merge x merge status =
     (case ex_result x of Inl e \<Rightarrow> status | Inr payload \<Rightarrow> merge payload status)"

definition readUdpStatus ::
  "UdpOptions \<Rightarrow> nat \<Rightarrow> exchange_env \<Rightarrow> exchange_env \<Rightarrow> exchange_env \<Rightarrow> UdpStatus" where
  "readUdpStatus opts maxChannels env1 env2 env3 =
     (let status0 = initial_status maxChannels;
          status1 = try_merge (standby_exchange opts env1) merge_standby status0;
          status2 = try_merge (readgm_exchange opts env2)
                      (\<lambda>gmData. merge_readgm gmData maxChannels) status1;
          status3 = try_merge (alarms_exchange opts env3)
                      (\<lambda>alData. merge_alarms alData maxChannels) status2
      in status3)"

section \<open>The gain/mute table in the words of the specification\<close>

text \<open>
  Channel \<open>i\<close> of the table occupies the six bytes from offset \<open>2 + 6 * i\<close>: input gain
  and output gain, each a little-endian signed 16-bit number of hundredths of a decibel,
  then the input-mute and output-mute bytes, where 1 means muted. The signed 16-bit value
  is the two's-complement reading of the word made of the high and the low byte.
\<close>

definition spec_int16 :: "byte \<Rightarrow> byte \<Rightarrow> int" where
  "spec_int16 lo hi = sint (word_cat hi lo :: 16 word)"

definition spec_gm_channel :: "buffer \<Rightarrow> nat \<Rightarrow> gm_channel" where
  "spec_gm_channel data i =
     (let base = 2 + 6 * i
      in \<lparr>gm_inGain = Some (real_of_int (spec_int16 (data ! base) (data ! (base + 1))) / 100),
          gm_outGain = Some (real_of_int (spec_int16 (data ! (base + 2)) (data ! (base + 3))) / 100),
          gm_inMute = Some (data ! (base + 4) = 1),
          gm_outMute = Some (data ! (base + 5) = 1)\<rparr>)"

section \<open>What a stage does to one channel\<close>

text \<open>
  The gain/mute stage and the alarm stage of \<open>readUdpStatus\<close> seen from channel \<open>i\<close> of
  the status: the change each makes to that entry, given the exchange and \<open>maxChannels\<close>.
  The lemmas below show that the loops of the model do exactly this to every entry.
\<close>

definition gm_effect :: "exchange \<Rightarrow> nat \<Rightarrow> nat \<Rightarrow> channel_status \<Rightarrow> channel_status" where
  "gm_effect x maxChannels i c =
     (case ex_result x of
        Inl e \<Rightarrow> c
      | Inr gmData \<Rightarrow>
          (case parseReadgmData gmData maxChannels of
             Inl e \<Rightarrow> c
           | Inr gm \<Rightarrow>
               if gm_ok gm \<and> i < min (length (gm_channels gm)) maxChannels
               then gm_update (gm_channels gm ! i) c else c))"

definition alarm_effect :: "exchange \<Rightarrow> nat \<Rightarrow> nat \<Rightarrow> channel_status \<Rightarrow> channel_status" where
  "alarm_effect x maxChannels i c =
     (case ex_result x of
        Inl e \<Rightarrow> c
      | Inr alData \<Rightarrow>
          (case parseReadAllAlarms2Data alData of
             Inl e \<Rightarrow> c
           | Inr a \<Rightarrow>
               (case al_channelWords a of
                  None \<Rightarrow> c
                | Some ws \<Rightarrow>
                    if al_ok a \<and> i < min (length ws) maxChannels \<and> ws ! i \<noteq> 0
                    then alarm_flags (ws ! i) c else c)))"

section \<open>Example inputs\<close>

text \<open>
  Inputs for the concrete instances below: options with every default, an exchange in
  which nothing arrives before the deadline, an exchange in which one datagram arrives,
  and replies of a device to the standby read, to the gain/mute read and to the alarm
  read (cookie 5, checksum bytes zero, as the decoder does not check them). The gain/mute
  reply declares two channels and holds one: input gain -1.5 dB, output gain 3 dB, input
  muted, output not muted.
\<close>

abbreviation (input) demo_opts :: UdpOptions where
  "demo_opts \<equiv> \<lparr>host = ''amp'', devicePort = None, answerPortZero = None, timeoutMs = None\<rparr>"

abbreviation (input) silent_env :: exchange_env where
  "silent_env \<equiv> \<lparr>env_bind = Inr 50000, env_cookie = 5, env_events = []\<rparr>"

abbreviation (input) reply_env :: "buffer \<Rightarrow> exchange_env" where
  "reply_env msg \<equiv> \<lparr>env_bind = Inr 50000, env_cookie = 5, env_events = [Message msg]\<rparr>"

abbreviation (input) standby_reply :: "byte \<Rightarrow> buffer" where
  "standby_reply raw \<equiv>
     [0x02, 0xf1, 0x05, 0x00, 0x04, 0x00, 0x00, 0x00, 0x01, raw, 0x00, 0x00, 0x00, 0x00, 0x0e, 0x03]"

abbreviation (input) gm_payload :: buffer where
  "gm_payload \<equiv> [0x01, 0x02, 0x6a, 0xff, 0x2c, 0x01, 0x01, 0x00, 9, 9, 9]"

abbreviation (input) gm_reply :: buffer where
  "gm_reply \<equiv>
     [0x02, 0xfe, 0x05, 0x00, 0x0b, 0x00, 0x00, 0x00,
      0x01, 0x02, 0x6a, 0xff, 0x2c, 0x01, 0x01, 0x00, 9, 9, 9,
      0x00, 0x00, 0x01, 0x03]"

abbreviation (input) alarm_payload :: buffer where
  "alarm_payload \<equiv> [0x01, 0x00, 0x00, 0x00, 0, 0, 0, 0, 0x83, 0, 0, 0, 0, 0, 0, 0]"

abbreviation (input) alarm_reply :: buffer where
  "alarm_reply \<equiv>
     [0x02, 0xe6, 0x05, 0x00, 0x10, 0x00, 0x00, 0x00,
      0x01, 0x00, 0x00, 0x00, 0, 0, 0, 0, 0x83, 0, 0, 0, 0, 0, 0, 0,
      0x00, 0x00, 0x19, 0x03]"


section \<open>The checksum computes the specified CRC\<close>

lemma sdrop_ucast: "signed_drop_bit (Suc 0) (ucast (r :: 16 word) :: 32 word) = ucast (drop_bit (Suc 0) r)"
  by (rule bit_word_eqI)
     (auto simp add: bit_signed_drop_bit_iff bit_ucast_iff bit_drop_bit_eq dest: bit_imp_le_length)

lemma mix_ucast: "((ucast (r :: 16 word) :: 32 word) AND 1 \<noteq> 0) = bit r 0"
proof -
  have "((ucast r :: 32 word) AND 1 \<noteq> 0) = bit (ucast r :: 32 word) 0"
    by (simp add: and_one_eq bit_0 odd_iff_mod_2_eq_one)
  also have "\<dots> = bit r 0"
    by (simp add: bit_ucast_iff)
  finally show ?thesis .
qed

lemma xor_poly_ucast: "(ucast (a::16 word) :: 32 word) XOR 0xa001 = ucast (a XOR 0xA001)"
  by (simp add: unsigned_xor_eq)

lemma xor_byte_ucast:
  "(ucast (a::16 word) :: 32 word) XOR ucast (b :: byte) = ucast (a XOR ucast b)"
  by (rule bit_word_eqI) (auto simp add: bit_xor_iff bit_ucast_iff dest: bit_imp_le_length)

lemma and_ffff_ucast: "(ucast (a::16 word) :: 32 word) AND 0xffff = ucast a"
proof -
  have m: "(0xffff :: 32 word) = mask 16"
    by (simp add: mask_eq_exp_minus_1)
  show ?thesis
    unfolding m
    by (rule bit_word_eqI)
       (auto simp add: bit_and_iff bit_mask_iff bit_ucast_iff dest: bit_imp_le_length)
qed

lemma unat_ucast_16_32: "unat (ucast (x :: 16 word) :: 32 word) = unat x"
proof -
  have "unat x < 2 ^ 16" using unsigned_less [of x, where ?'a = nat] by simp
  then show ?thesis
    by (simp add: unsigned_ucast_eq take_bit_nat_eq_self_iff unsigned_take_bit_eq)
qed

lemma crc_round_ucast: "crc_round (ucast r) = ucast (spec_crc_shift r)"
  by (simp add: crc_round_def spec_crc_shift_def Let_def mix_ucast sdrop_ucast xor_poly_ucast)

lemma crc_rounds_ucast: "(crc_round ^^ n) (ucast r) = ucast ((spec_crc_shift ^^ n) r)"
  by (induction n) (simp_all add: crc_round_ucast)

lemma crc_byte_ucast:
  "off + i < length buf \<Longrightarrow>
   crc_byte buf off i (ucast r) = ucast ((spec_crc_shift ^^ 8) (r XOR ucast (buf ! (off + i))))"
  by (simp add: crc_byte_def buf_at_def xor_byte_ucast crc_rounds_ucast)

lemma crc_fold_ucast:
  "off + len \<le> length buf \<Longrightarrow>
   fold (crc_byte buf off) [0..<len] (ucast r) =
   ucast (fold (\<lambda>b reg. (spec_crc_shift ^^ 8) (reg XOR ucast b)) (take len (drop off buf)) r)"
proof (induction len)
  case 0
  then show ?case by simp
next
  case (Suc len)
  then have lt: "off + len < length buf" by simp
  then have "take (Suc len) (drop off buf) = take len (drop off buf) @ [buf ! (off + len)]"
    by (simp add: take_Suc_conv_app_nth)
  with Suc lt show ?case
    by (simp add: crc_byte_ucast)
qed

lemma crc16IBM_spec:
  "off + len \<le> length buf \<Longrightarrow> crc16IBM buf off len = unat (spec_crc16 (take len (drop off buf)))"
proof -
  assume a: "off + len \<le> length buf"
  have "(0xffff :: 32 word) = ucast (0xFFFF :: 16 word)" by simp
  then have "fold (crc_byte buf off) [0..<len] 0xffff = ucast (spec_crc16 (take len (drop off buf)))"
    using crc_fold_ucast [OF a, of "0xFFFF"] by (simp add: spec_crc16_def)
  then show ?thesis
    by (simp add: crc16IBM_def and_ffff_ucast unat_ucast_16_32)
qed

section \<open>The layout of an encoded frame\<close>

lemma replicate_frame_split: "replicate (12 + n) (0::byte) = [0,0,0,0,0,0,0,0] @ replicate n 0 @ [0,0,0,0]"
proof -
  have "replicate (12 + n) (0::byte) = replicate 8 0 @ replicate n 0 @ replicate 4 0"
    by (simp flip: replicate_add)
  also have "replicate 8 (0::byte) = [0,0,0,0,0,0,0,0]" by (simp add: numeral_eq_Suc)
  also have "replicate 4 (0::byte) = [0,0,0,0]" by (simp add: numeral_eq_Suc)
  finally show ?thesis .
qed

lemma header_writes:
  "(writeUInt16LE (writeUInt16LE (writeUInt16LE 
      ((replicate (12 + n) (0::byte))[0 := 0x02, 1 := c]) v1 2) v2 4) v3 6)
    = [2, c] @ le16 v1 @ le16 v2 @ le16 v3 @ replicate n 0 @ [0,0,0,0]"
  unfolding replicate_frame_split by (simp add: writeUInt16LE_def le16_def)

lemma payload_copy:
  "length data = n \<Longrightarrow> length hdr = 8 \<Longrightarrow>
   copy_into data (hdr @ replicate n 0 @ [0,0,0,0]) 8 = hdr @ data @ [0,0,0,0]"
  by (simp add: copy_into_def)

lemma trailer_writes:
  "length pre = 8 + n \<Longrightarrow>
   (writeUInt16LE (pre @ [0,0,0,0]) v (8 + n))[8 + n + 2 := a, 8 + n + 3 := b]
     = pre @ le16 v @ [a, b]"
  by (simp add: writeUInt16LE_def le16_def list_update_append nth_append)


lemma crc16IBM_prefix:
  "length pre = n \<Longrightarrow> crc16IBM (pre @ rest) 0 n = unat (spec_crc16 pre)"
  by (subst crc16IBM_spec) simp_all

lemma of_nat_mod_256: "(of_nat (c mod 256) :: byte) = of_nat c"
  by (simp add: word_of_nat_eq_iff take_bit_eq_mod)

lemma buildFrame_layout:
  "buildFrame cmd cookie answerPort data fz =
     (let pre = [0x02, of_nat cmd] @ le16 (cookie mod 65536) @ le16 (length data mod 65536)
                  @ le16 (answerPort mod 65536) @ data
      in pre @ le16 (if fz then 0 else unat (spec_crc16 pre)) @ [NOT (of_nat cmd), 0x03])"
proof -
  let ?n = "length data"
  let ?hdr = "[0x02, of_nat cmd] @ le16 (cookie mod 65536) @ le16 (?n mod 65536)
                  @ le16 (answerPort mod 65536)"
  let ?out5 = "writeUInt16LE (writeUInt16LE (writeUInt16LE
      ((replicate (12 + ?n) (0::byte))[0 := 0x02, 1 := of_nat cmd]) (cookie mod 65536) 2)
         (?n mod 65536) 4) (answerPort mod 65536) 6"
  let ?out6 = "if ?n > 0 then copy_into data ?out5 8 else ?out5"
  have o5: "?out5 = ?hdr @ replicate ?n 0 @ [0,0,0,0]"
    by (simp only: header_writes append_assoc)
  have lh: "length ?hdr = 8" by (simp add: le16_def)
  have o6: "?out6 = (?hdr @ data) @ [0,0,0,0]"
  proof (cases "?n > 0")
    case True
    then show ?thesis
      unfolding o5 using payload_copy [OF refl lh, of data] by simp
  next
    case False
    then show ?thesis unfolding o5 by simp
  qed
  have lp: "length (?hdr @ data) = 8 + ?n" using lh by simp
  have tot: "1 + 1 + 2 + 2 + 2 + length data + (2 + 1 + 1) = 12 + length data" by simp
  have crc: "crc16IBM ?out6 0 (8 + ?n) = unat (spec_crc16 (?hdr @ data))"
    unfolding o6 by (rule crc16IBM_prefix [OF lp])
  have lt: "unat (spec_crc16 (?hdr @ data)) mod 65536 = unat (spec_crc16 (?hdr @ data))"
    using unsigned_less [of "spec_crc16 (?hdr @ data)", where ?'a = nat] by simp
  have "buildFrame cmd cookie answerPort data fz =
      (writeUInt16LE ?out6 ((if \<not> fz then crc16IBM ?out6 0 (8 + ?n) else 0) mod 65536) (8 + ?n))
        [8 + ?n + 2 := NOT (of_nat cmd), 8 + ?n + 3 := 0x03]"
    unfolding buildFrame_def Let_def tot of_nat_mod_256 by (rule refl)
  also have "\<dots> = (?hdr @ data) @ le16 (if fz then 0 else unat (spec_crc16 (?hdr @ data)))
                  @ [NOT (of_nat cmd), 0x03]"
    unfolding crc unfolding o6 using trailer_writes [OF lp] lt by simp
  finally show ?thesis by (simp add: Let_def)
qed

section \<open>Decoding an encoded frame\<close>

lemma unat_le16:
  "v < 65536 \<Longrightarrow> unat (of_nat v :: byte) + 256 * unat (of_nat (v div 256) :: byte) = v"
  by (simp add: unat_of_nat)

lemma readUInt16LE_le16:
  "v < 65536 \<Longrightarrow> length pre = off \<Longrightarrow> readUInt16LE (pre @ le16 v @ rest) off = Inr v"
  by (simp add: readUInt16LE_def le16_def nth_append unat_le16)

lemma parseHeader_layout:
  assumes "v1 < 65536" "length data < 65536" "v3 < 65536" "crc < 65536"
  shows "parseHeader ([0x02, c] @ le16 v1 @ le16 (length data) @ le16 v3 @ data @ le16 crc @ [a, b])
     = Inr \<lparr>h_STX = 2, h_cmd = unat c, h_cookie = v1, h_count = length data,
             h_answerPort = v3, h_data = data, h_crc16 = crc,
             h_notCmd = unat (of_nat (crc div 256) :: byte), h_ETX = unat a\<rparr>"
proof -
  define hdr where "hdr = [0x02, c] @ le16 v1 @ le16 (length data) @ le16 v3"
  define msg where "msg = hdr @ data @ le16 crc @ [a, b]"
  have l8: "length hdr = 8" by (simp add: hdr_def le16_def)
  have len: "length msg = 12 + length data" by (simp add: msg_def l8 le16_def)
  have r2: "readUInt16LE msg 2 = Inr v1"
    using readUInt16LE_le16 [OF assms(1), of "[0x02, c]" 2] by (simp add: msg_def hdr_def)
  have r4: "readUInt16LE msg 4 = Inr (length data)"
    using readUInt16LE_le16 [OF assms(2), of "[0x02, c] @ le16 v1" 4]
    by (simp add: msg_def hdr_def le16_def)
  have r6: "readUInt16LE msg 6 = Inr v3"
    using readUInt16LE_le16 [OF assms(3), of "[0x02, c] @ le16 v1 @ le16 (length data)" 6]
    by (simp add: msg_def hdr_def le16_def)
  have rc: "readUInt16LE msg (8 + length data) = Inr crc"
    using readUInt16LE_le16 [OF assms(4), of "hdr @ data" "8 + length data" "[a, b]"]
    by (simp add: msg_def l8)
  have n0: "msg ! 0 = 2" and n1: "msg ! Suc 0 = c" by (simp_all add: msg_def hdr_def)
  have sub: "subarray msg 8 (8 + length data) = data"
    by (simp add: msg_def subarray_def l8)
  have t1: "msg ! (9 + length data) = of_nat (crc div 256)"
    by (simp add: msg_def nth_append le16_def l8)
  have t2: "msg ! (10 + length data) = a"
    by (simp add: msg_def nth_append le16_def l8)
  have "parseHeader msg = Inr \<lparr>h_STX = 2, h_cmd = unat c, h_cookie = v1, h_count = length data,
             h_answerPort = v3, h_data = data, h_crc16 = crc,
             h_notCmd = unat (of_nat (crc div 256) :: byte), h_ETX = unat a\<rparr>"
    by (simp add: parseHeader_def Let_def bind_err_def r2 r4 r6 rc n0 n1 sub t1 t2 len)
  then show ?thesis by (simp add: msg_def hdr_def)
qed

section \<open>Round trip of the frame codec\<close>

text \<open>
  C1. For every command byte, 16-bit cookie, 16-bit reply port and payload of at most
  65535 bytes, \<open>parseHeader\<close> of the frame \<open>buildFrame\<close> encodes succeeds and returns
  the same command, cookie, payload length, reply port and payload. The checksum field of
  the frame (the two bytes behind the payload, which \<open>parseHeader\<close> returns as
  \<open>crc16\<close>) is 0 when \<open>forceZeroCrc\<close> is set, whatever the payload, and otherwise the
  CRC of the specification (feedback \<open>0xA001\<close>, initial register \<open>0xFFFF\<close>, least
  significant bit first) over the bytes from the start marker through the last payload
  byte.
\<close>

theorem buildFrame_parseHeader_roundtrip:
  assumes "cmd < 256" and "cookie < 65536" and "answerPort < 65536" and "length data \<le> 65535"
  shows "\<exists>h. parseHeader (buildFrame cmd cookie answerPort data forceZeroCrc) = Inr h
           \<and> h_cmd h = cmd \<and> h_cookie h = cookie \<and> h_count h = length data
           \<and> h_answerPort h = answerPort \<and> h_data h = data
           \<and> readUInt16LE (buildFrame cmd cookie answerPort data forceZeroCrc) (8 + length data)
               = Inr (h_crc16 h)
           \<and> h_crc16 h =
               (if forceZeroCrc then 0
                else unat (spec_crc16
                  (take (8 + length data) (buildFrame cmd cookie answerPort data forceZeroCrc))))"
proof -
  define pre where "pre = [0x02, of_nat cmd] @ le16 (cookie mod 65536)
      @ le16 (length data mod 65536) @ le16 (answerPort mod 65536) @ data"
  define crc where "crc = (if forceZeroCrc then 0 else unat (spec_crc16 pre))"
  define frame where "frame = buildFrame cmd cookie answerPort data forceZeroCrc"
  have lay: "frame = pre @ le16 crc @ [NOT (of_nat cmd), 0x03]"
    by (simp add: frame_def buildFrame_layout Let_def pre_def crc_def)
  have lpre: "length pre = 8 + length data" by (simp add: pre_def le16_def)
  have crc_lt: "crc < 65536"
    using unsigned_less [of "spec_crc16 pre", where ?'a = nat] by (simp add: crc_def)
  have tk: "take (8 + length data) frame = pre"
    by (simp add: lay lpre)
  have rd: "readUInt16LE frame (8 + length data) = Inr crc"
    unfolding lay using readUInt16LE_le16 [OF crc_lt lpre] by simp
  have ucmd: "unat (of_nat cmd :: byte) = cmd"
    using assms(1) by (simp add: unat_of_nat)
  have ph: "parseHeader frame = Inr \<lparr>h_STX = 2, h_cmd = cmd, h_cookie = cookie, h_count = length data,
             h_answerPort = answerPort, h_data = data, h_crc16 = crc,
             h_notCmd = unat (of_nat (crc div 256) :: byte),
             h_ETX = unat (NOT (of_nat cmd :: byte))\<rparr>"
    unfolding lay pre_def
    using parseHeader_layout [of cookie data answerPort crc "of_nat cmd" "NOT (of_nat cmd)" "0x03"]
      assms crc_lt by (simp add: ucmd)
  have "\<exists>h. parseHeader frame = Inr h
           \<and> h_cmd h = cmd \<and> h_cookie h = cookie \<and> h_count h = length data
           \<and> h_answerPort h = answerPort \<and> h_data h = data
           \<and> readUInt16LE frame (8 + length data) = Inr (h_crc16 h)
           \<and> h_crc16 h =
               (if forceZeroCrc then 0
                else unat (spec_crc16 (take (8 + length data) frame)))"
    by (simp add: ph rd tk crc_def)
  then show ?thesis unfolding frame_def .
qed

theorem buildFrame_parseHeader_roundtrip_witness:
  "(14::nat) < 256 \<and> (4660::nat) < 65536 \<and> (0::nat) < 65536 \<and> length [0, 0, 0, 0 :: byte] \<le> 65535
   \<and> (\<exists>h. parseHeader (buildFrame 14 4660 0 [0, 0, 0, 0] True) = Inr h
           \<and> h_cmd h = 14 \<and> h_cookie h = 4660 \<and> h_count h = length [0, 0, 0, 0 :: byte]
           \<and> h_answerPort h = 0 \<and> h_data h = [0, 0, 0, 0]
           \<and> readUInt16LE (buildFrame 14 4660 0 [0, 0, 0, 0] True) 12 = Inr (h_crc16 h)
           \<and> h_crc16 h = 0)"
  using buildFrame_parseHeader_roundtrip [of 14 4660 0 "[0, 0, 0, 0]" True]
  by simp

section \<open>Decoding in general\<close>

lemma unat_byte_eq_2: "(unat (w :: byte) = 2) = (w = 2)"
  by (simp add: word_unat_eq_iff)

lemma parseHeader_unfold:
  "parseHeader msg =
     (let count = unat (msg ! 4) + 256 * unat (msg ! 5)
      in if length msg < 12 then Inl FrameTooShort
         else if msg ! 0 \<noteq> 0x02 then Inl BadSTX
         else if length msg < 8 + count + 4 then Inl TruncatedFrame
         else Inr \<lparr>h_STX = 2, h_cmd = unat (msg ! 1),
                 h_cookie = unat (msg ! 2) + 256 * unat (msg ! 3),
                 h_count = count,
                 h_answerPort = unat (msg ! 6) + 256 * unat (msg ! 7),
                 h_data = take count (drop 8 msg),
                 h_crc16 = unat (msg ! (8 + count)) + 256 * unat (msg ! (8 + count + 1)),
                 h_notCmd = unat (msg ! (8 + count + 1)),
                 h_ETX = unat (msg ! (8 + count + 2))\<rparr>)"
proof (cases "length msg < 12")
  case True
  then show ?thesis by (simp add: parseHeader_def Let_def)
next
  case False
  then have r: "readUInt16LE msg 2 = Inr (unat (msg ! 2) + 256 * unat (msg ! 3))"
      "readUInt16LE msg 4 = Inr (unat (msg ! 4) + 256 * unat (msg ! 5))"
      "readUInt16LE msg 6 = Inr (unat (msg ! 6) + 256 * unat (msg ! 7))"
    by (simp_all add: readUInt16LE_def)
  show ?thesis
  proof (cases "length msg < 8 + (unat (msg ! 4) + 256 * unat (msg ! 5)) + 4")
    case True
    with False show ?thesis
      by (simp add: parseHeader_def Let_def bind_err_def r unat_byte_eq_2)
  next
    case ok: False
    then have "readUInt16LE msg (8 + (unat (msg ! 4) + 256 * unat (msg ! 5)))
        = Inr (unat (msg ! (8 + (unat (msg ! 4) + 256 * unat (msg ! 5))))
               + 256 * unat (msg ! (8 + (unat (msg ! 4) + 256 * unat (msg ! 5)) + 1)))"
      by (simp add: readUInt16LE_def)
    with False ok show ?thesis
      by (simp add: parseHeader_def Let_def bind_err_def r unat_byte_eq_2 subarray_def)
  qed
qed

lemma parseHeader_fails_iff:
  "(\<exists>e. parseHeader msg = Inl e) \<longleftrightarrow>
     (length msg < 12 \<or> msg ! 0 \<noteq> 0x02
      \<or> length msg < 8 + (unat (msg ! 4) + 256 * unat (msg ! 5)) + 4)"
  by (simp add: parseHeader_unfold Let_def)

lemma parseHeader_errors:
  "parseHeader msg = Inl e \<Longrightarrow> e \<in> {FrameTooShort, BadSTX, TruncatedFrame}"
  by (simp add: parseHeader_unfold Let_def split: if_splits)

text \<open>
  C9. \<open>parseHeader\<close> reads the two trailer bytes one position early. The frame that
  \<open>buildFrame\<close> encodes for the standby read with cookie \<open>0x1234\<close> carries its checksum at
  offsets 12 and 13, the inverted command \<open>0xf1\<close> at offset 14 and the end marker
  \<open>0x03\<close> at offset 15; \<open>parseHeader\<close> returns as \<open>notCmd\<close> the byte at offset 13 (the high
  byte of the checksum, 0) and as \<open>ETX\<close> the byte at offset 14 (the inverted command),
  so the end marker is never returned. The conditions under which decoding fails are as
  the claim states them (\<open>parseHeader_fails_iff\<close>, \<open>parseHeader_errors\<close>).
\<close>

theorem parseHeader_trailer_offsets:
  "buildFrame 14 4660 0 [0, 0, 0, 0] True
     = [0x02, 0x0e, 0x34, 0x12, 0x04, 0x00, 0x00, 0x00, 0, 0, 0, 0, 0x00, 0x00, 0xf1, 0x03]
   \<and> parseHeader (buildFrame 14 4660 0 [0, 0, 0, 0] True)
     = Inr \<lparr>h_STX = 2, h_cmd = 14, h_cookie = 4660, h_count = 4, h_answerPort = 0,
            h_data = [0, 0, 0, 0], h_crc16 = 0, h_notCmd = 0, h_ETX = 0xf1\<rparr>"
  by (simp add: buildFrame_layout le16_def parseHeader_unfold Let_def)

section \<open>Frames sent and replies received\<close>

lemma inv_cmd_word: "((of_nat c :: 32 word) XOR 0xff) AND 0xff = ucast (NOT (of_nat c :: byte))"
proof -
  have m: "(0xff :: 32 word) = mask 8" by (simp add: mask_eq_exp_minus_1)
  show ?thesis
    unfolding m
    by (rule bit_word_eqI)
       (auto simp add: bit_and_iff bit_xor_iff bit_mask_iff bit_ucast_iff bit_not_iff
          bit_of_nat_iff)
qed

lemma unat_not_byte: "unat (NOT (w :: byte)) = 255 - unat w"
proof -
  have "NOT w = 255 - w" by (simp add: not_eq_complement)
  moreover have "w \<le> 255"
    using unsigned_less [of w, where ?'a = nat] by (simp add: word_le_nat_alt)
  ultimately show ?thesis by (simp add: unat_sub)
qed

lemma unat_ucast_8_32: "unat (ucast (w :: byte) :: 32 word) = unat w"
proof -
  have "unat w < 2 ^ 8" using unsigned_less [of w, where ?'a = nat] by simp
  then show ?thesis
    by (simp add: unsigned_ucast_eq take_bit_nat_eq_self_iff unsigned_take_bit_eq)
qed

lemma inv_cmd_byte: "c < 256 \<Longrightarrow> inv_cmd c = 255 - c"
  by (simp add: inv_cmd_def inv_cmd_word unat_not_byte unat_ucast_8_32 unat_of_nat)





lemma h_cmd_byte: "parseHeader msg = Inr h \<Longrightarrow> h_cmd h < 256"
  using unsigned_less [of "msg ! 1", where ?'a = nat]
  by (auto simp add: parseHeader_unfold Let_def split: if_splits)

text \<open>
  C2, as amended. The first event settles an exchange whose socket is bound. A first
  reply that decodes but whose inverted command byte differs from the request's command,
  or whose cookie differs from the request's cookie, is not ignored: the exchange fails at
  once, with \<open>Unexpected cmd in response\<close> or \<open>Cookie mismatch\<close>, whatever arrives later.
  The exchange resolves with a payload exactly when the first event is a reply that
  decodes and matches both, and it fails with \<open>UDP timeout\<close> exactly when neither a
  datagram nor a send error occurs before the deadline.
\<close>

theorem udpRequest_first_event_decides:
  assumes "env_bind env = Inr port"
  shows "(\<forall>msg rest h. env_events env = Message msg # rest \<and> parseHeader msg = Inr h
             \<and> (255 - h_cmd h \<noteq> cmd \<or> h_cookie h \<noteq> env_cookie env)
           \<longrightarrow> ex_result (udpRequest opts env cmd data forceZeroCrc)
                 = Inl (if 255 - h_cmd h \<noteq> cmd then UnexpectedCmd else CookieMismatch))
       \<and> (\<forall>payload. ex_result (udpRequest opts env cmd data forceZeroCrc) = Inr payload
           \<longleftrightarrow> (\<exists>msg rest h. env_events env = Message msg # rest \<and> parseHeader msg = Inr h
                  \<and> 255 - h_cmd h = cmd \<and> h_cookie h = env_cookie env \<and> h_data h = payload))
       \<and> (ex_result (udpRequest opts env cmd data forceZeroCrc) = Inl UdpTimeout
           \<longleftrightarrow> env_events env = [])"
proof -
  have res: "ex_result (udpRequest opts env cmd data forceZeroCrc)
      = await_reply cmd (env_cookie env) (env_events env)"
    using assms by (simp add: udpRequest_def Let_def)
  have om: "\<And>msg h. parseHeader msg = Inr h \<Longrightarrow>
      on_message cmd (env_cookie env) msg =
        (if 255 - h_cmd h \<noteq> cmd then Inl UnexpectedCmd
         else if h_cookie h \<noteq> env_cookie env then Inl CookieMismatch
         else Inr (h_data h))"
    by (simp add: on_message_def inv_cmd_byte h_cmd_byte)
  have om_err: "\<And>msg e. parseHeader msg = Inl e \<Longrightarrow> on_message cmd (env_cookie env) msg = Inl e"
    by (simp add: on_message_def)
  have p1: "\<forall>msg rest h. env_events env = Message msg # rest \<and> parseHeader msg = Inr h
             \<and> (255 - h_cmd h \<noteq> cmd \<or> h_cookie h \<noteq> env_cookie env)
           \<longrightarrow> ex_result (udpRequest opts env cmd data forceZeroCrc)
                 = Inl (if 255 - h_cmd h \<noteq> cmd then UnexpectedCmd else CookieMismatch)"
    by (auto simp add: res om)
  have p2: "\<forall>payload. ex_result (udpRequest opts env cmd data forceZeroCrc) = Inr payload
           \<longleftrightarrow> (\<exists>msg rest h. env_events env = Message msg # rest \<and> parseHeader msg = Inr h
                  \<and> 255 - h_cmd h = cmd \<and> h_cookie h = env_cookie env \<and> h_data h = payload)"
  proof (cases "env_events env")
    case Nil
    then show ?thesis by (simp add: res)
  next
    case (Cons ev rest)
    show ?thesis
    proof (cases ev)
      case (Message msg)
      show ?thesis
      proof (cases "parseHeader msg")
        case (Inl e)
        then show ?thesis using Cons Message by (simp add: res om_err)
      next
        case (Inr h)
        then show ?thesis using Cons Message by (auto simp add: res om)
      qed
    next
      case SendFailed
      then show ?thesis using Cons by (simp add: res)
    qed
  qed
  have p3: "ex_result (udpRequest opts env cmd data forceZeroCrc) = Inl UdpTimeout
           \<longleftrightarrow> env_events env = []"
  proof (cases "env_events env")
    case Nil
    then show ?thesis by (simp add: res)
  next
    case (Cons ev rest)
    show ?thesis
    proof (cases ev)
      case (Message msg)
      show ?thesis
      proof (cases "parseHeader msg")
        case (Inl e)
        then show ?thesis using Cons Message parseHeader_errors [OF Inl]
          by (auto simp add: res om_err)
      next
        case (Inr h)
        then show ?thesis using Cons Message by (simp add: res om)
      qed
    next
      case SendFailed
      then show ?thesis using Cons by (simp add: res)
    qed
  qed
  from p1 p2 p3 show ?thesis by blast
qed

text \<open>
  C2 as stated fails: a reply with cookie 6 to a request with cookie 5 ends the exchange
  in \<open>Cookie mismatch\<close>, although the matching reply arrives next, before the deadline;
  the same matching reply alone resolves the exchange.
\<close>

theorem udpRequest_mismatch_not_ignored:
  "ex_result (udpRequest
      \<lparr>host = ''amp'', devicePort = None, answerPortZero = None, timeoutMs = None\<rparr>
      \<lparr>env_bind = Inr 50000, env_cookie = 5,
       env_events =
         [Message [0x02, 0xfe, 0x06, 0x00, 0x02, 0x00, 0x00, 0x00, 0x01, 0x00, 0, 0, 0x01, 0x03],
          Message [0x02, 0xfe, 0x05, 0x00, 0x02, 0x00, 0x00, 0x00, 0x01, 0x00, 0, 0, 0x01, 0x03]]\<rparr>
      CMD_READGM [] False) = Inl CookieMismatch
   \<and> ex_result (udpRequest
      \<lparr>host = ''amp'', devicePort = None, answerPortZero = None, timeoutMs = None\<rparr>
      \<lparr>env_bind = Inr 50000, env_cookie = 5,
       env_events =
         [Message [0x02, 0xfe, 0x05, 0x00, 0x02, 0x00, 0x00, 0x00, 0x01, 0x00, 0, 0, 0x01, 0x03]]\<rparr>
      CMD_READGM [] False) = Inr [0x01, 0x00]"
  by (simp add: udpRequest_def Let_def on_message_def parseHeader_unfold inv_cmd_def
        CMD_READGM_def)


theorem udpRequest_first_event_decides_witness:
  "env_bind \<lparr>env_bind = Inr 50000, env_cookie = 5,
       env_events =
         [Message [0x02, 0xfe, 0x06, 0x00, 0x02, 0x00, 0x00, 0x00, 0x01, 0x00, 0, 0, 0x01, 0x03],
          Message [0x02, 0xfe, 0x05, 0x00, 0x02, 0x00, 0x00, 0x00, 0x01, 0x00, 0, 0, 0x01, 0x03]]\<rparr>
     = Inr 50000
   \<and> parseHeader [0x02, 0xfe, 0x06, 0x00, 0x02, 0x00, 0x00, 0x00, 0x01, 0x00, 0, 0, 0x01, 0x03]
     = Inr \<lparr>h_STX = 2, h_cmd = 254, h_cookie = 6, h_count = 2, h_answerPort = 0,
            h_data = [1, 0], h_crc16 = 0, h_notCmd = 0, h_ETX = 1\<rparr>
   \<and> ex_result (udpRequest
      \<lparr>host = ''amp'', devicePort = None, answerPortZero = None, timeoutMs = None\<rparr>
      \<lparr>env_bind = Inr 50000, env_cookie = 5,
       env_events =
         [Message [0x02, 0xfe, 0x06, 0x00, 0x02, 0x00, 0x00, 0x00, 0x01, 0x00, 0, 0, 0x01, 0x03],
          Message [0x02, 0xfe, 0x05, 0x00, 0x02, 0x00, 0x00, 0x00, 0x01, 0x00, 0, 0, 0x01, 0x03]]\<rparr>
      1 [] False) = Inl CookieMismatch"
proof -
  let ?bad = "[0x02, 0xfe, 0x06, 0x00, 0x02, 0x00, 0x00, 0x00, 0x01, 0x00, 0, 0, 0x01, 0x03] :: buffer"
  let ?good = "[0x02, 0xfe, 0x05, 0x00, 0x02, 0x00, 0x00, 0x00, 0x01, 0x00, 0, 0, 0x01, 0x03] :: buffer"
  let ?env = "\<lparr>env_bind = Inr 50000, env_cookie = 5,
       env_events = [Message ?bad, Message ?good]\<rparr>"
  let ?h = "\<lparr>h_STX = 2, h_cmd = 254, h_cookie = 6, h_count = 2, h_answerPort = 0,
            h_data = [1, 0], h_crc16 = 0, h_notCmd = 0, h_ETX = 1\<rparr>"
  have b: "env_bind ?env = Inr 50000" by simp
  have p: "parseHeader ?bad = Inr ?h"
    by (simp add: parseHeader_unfold Let_def)
  have e: "env_events ?env = Message ?bad # [Message ?good]" by simp
  have m: "255 - h_cmd ?h \<noteq> 1 \<or> h_cookie ?h \<noteq> env_cookie ?env" by simp
  note t = udpRequest_first_event_decides [OF b, THEN conjunct1, rule_format, OF conjI [OF e conjI [OF p m]]]
  have "ex_result (udpRequest
      \<lparr>host = ''amp'', devicePort = None, answerPortZero = None, timeoutMs = None\<rparr>
      ?env 1 [] False) = Inl CookieMismatch"
    using t [of "\<lparr>host = ''amp'', devicePort = None, answerPortZero = None, timeoutMs = None\<rparr>" "[]" False]
    by simp
  with b p show ?thesis by blast
qed

section \<open>The merge loops\<close>

lemma gm_fold_frame:
  "st_power (fold (gm_step chans) [0..<k] st) = st_power st
   \<and> st_fault (fold (gm_step chans) [0..<k] st) = st_fault st
   \<and> length (st_channels (fold (gm_step chans) [0..<k] st)) = length (st_channels st)"
  by (induction k) (simp_all add: gm_step_def Let_def)

lemma gm_fold_channel:
  "j < length (st_channels st) \<Longrightarrow>
   st_channels (fold (gm_step chans) [0..<k] st) ! j
     = (if j < k then gm_update (chans ! j) (st_channels st ! j) else st_channels st ! j)"
proof (induction k)
  case 0
  then show ?case by simp
next
  case (Suc k)
  define S where "S = fold (gm_step chans) [0..<k] st"
  have len: "length (st_channels S) = length (st_channels st)"
    using gm_fold_frame [of chans k st] by (simp add: S_def)
  have ih: "st_channels S ! j
      = (if j < k then gm_update (chans ! j) (st_channels st ! j) else st_channels st ! j)"
    using Suc by (simp add: S_def)
  have "fold (gm_step chans) [0..<Suc k] st = gm_step chans k S"
    by (simp add: S_def)
  then have "st_channels (fold (gm_step chans) [0..<Suc k] st) ! j
      = ((st_channels S)[k := gm_update (chans ! k) (st_channels S ! k)]) ! j"
    by (simp add: gm_step_def Let_def)
  also have "\<dots> = (if j < Suc k then gm_update (chans ! j) (st_channels st ! j)
                    else st_channels st ! j)"
    using Suc.prems len ih by (auto simp add: nth_list_update less_Suc_eq)
  finally show ?case .
qed

lemma alarm_fold_frame:
  "st_power (fold (alarm_step ws) [0..<k] st) = st_power st
   \<and> st_fault (fold (alarm_step ws) [0..<k] st) = st_fault st
   \<and> length (st_channels (fold (alarm_step ws) [0..<k] st)) = length (st_channels st)"
  by (induction k) (simp_all add: alarm_step_def Let_def)

lemma alarm_fold_channel:
  "j < length (st_channels st) \<Longrightarrow>
   st_channels (fold (alarm_step ws) [0..<k] st) ! j
     = (if j < k \<and> ws ! j \<noteq> 0 then alarm_flags (ws ! j) (st_channels st ! j)
        else st_channels st ! j)"
proof (induction k)
  case 0
  then show ?case by simp
next
  case (Suc k)
  define S where "S = fold (alarm_step ws) [0..<k] st"
  have len: "length (st_channels S) = length (st_channels st)"
    using alarm_fold_frame [of ws k st] by (simp add: S_def)
  have ih: "st_channels S ! j
      = (if j < k \<and> ws ! j \<noteq> 0 then alarm_flags (ws ! j) (st_channels st ! j)
         else st_channels st ! j)"
    using Suc by (simp add: S_def)
  have "fold (alarm_step ws) [0..<Suc k] st = alarm_step ws k S"
    by (simp add: S_def)
  then have "st_channels (fold (alarm_step ws) [0..<Suc k] st) ! j
      = (if ws ! k \<noteq> 0
         then ((st_channels S)[k := alarm_flags (ws ! k) (st_channels S ! k)]) ! j
         else st_channels S ! j)"
    by (simp add: alarm_step_def Let_def)
  also have "\<dots> = (if j < Suc k \<and> ws ! j \<noteq> 0
                    then alarm_flags (ws ! j) (st_channels st ! j)
                    else st_channels st ! j)"
    using Suc.prems len ih by (auto simp add: nth_list_update less_Suc_eq)
  finally show ?case .
qed

lemma merge_standby_frame:
  "st_fault (merge_standby d st) = st_fault st \<and> st_channels (merge_standby d st) = st_channels st"
  by (simp add: merge_standby_def Let_def split: option.splits)

lemma merge_readgm_frame:
  "st_power (merge_readgm d n st) = st_power st
   \<and> st_fault (merge_readgm d n st) = st_fault st
   \<and> length (st_channels (merge_readgm d n st)) = length (st_channels st)"
  by (simp add: merge_readgm_def gm_fold_frame split: sum.splits)

lemma merge_alarms_frame:
  "st_power (merge_alarms d n st) = st_power st
   \<and> length (st_channels (merge_alarms d n st)) = length (st_channels st)"
  by (simp add: merge_alarms_def Let_def alarm_fold_frame split: sum.splits)

lemma gm_update_alarm_fields:
  "ch_clip (gm_update ch c) = ch_clip c \<and> ch_overTemp (gm_update ch c) = ch_overTemp c
   \<and> ch_lowLoad (gm_update ch c) = ch_lowLoad c \<and> ch_railFault (gm_update ch c) = ch_railFault c
   \<and> ch_otherFault (gm_update ch c) = ch_otherFault c
   \<and> ch_thermalSOA (gm_update ch c) = ch_thermalSOA c
   \<and> ch_auxCurrentFault (gm_update ch c) = ch_auxCurrentFault c"
  by (simp add: gm_update_def Let_def split: option.splits)

lemma alarm_flags_gm_fields:
  "ch_mute (alarm_flags w c) = ch_mute c \<and> ch_gain (alarm_flags w c) = ch_gain c"
  by (simp add: alarm_flags_def)

lemma try_standby_frame:
  "st_fault (try_merge x merge_standby st) = st_fault st
   \<and> st_channels (try_merge x merge_standby st) = st_channels st"
  by (simp add: try_merge_def merge_standby_frame split: sum.splits)

lemma try_readgm_frame:
  "st_power (try_merge x (\<lambda>d. merge_readgm d n) st) = st_power st
   \<and> st_fault (try_merge x (\<lambda>d. merge_readgm d n) st) = st_fault st
   \<and> length (st_channels (try_merge x (\<lambda>d. merge_readgm d n) st)) = length (st_channels st)"
  by (simp add: try_merge_def merge_readgm_frame split: sum.splits)

lemma try_alarms_frame:
  "st_power (try_merge x (\<lambda>d. merge_alarms d n) st) = st_power st
   \<and> length (st_channels (try_merge x (\<lambda>d. merge_alarms d n) st)) = length (st_channels st)"
  by (simp add: try_merge_def merge_alarms_frame split: sum.splits)

lemma try_readgm_channel:
  "i < length (st_channels st) \<Longrightarrow>
   st_channels (try_merge x (\<lambda>d. merge_readgm d n) st) ! i = gm_effect x n i (st_channels st ! i)"
  by (simp add: try_merge_def merge_readgm_def gm_effect_def gm_fold_channel
        split: sum.splits)

lemma try_alarms_channel:
  "i < length (st_channels st) \<Longrightarrow>
   st_channels (try_merge x (\<lambda>d. merge_alarms d n) st) ! i = alarm_effect x n i (st_channels st ! i)"
  by (simp add: try_merge_def merge_alarms_def alarm_effect_def alarm_fold_channel Let_def
        split: sum.splits option.splits)

lemma try_alarms_fault:
  "st_fault (try_merge x (\<lambda>d. merge_alarms d n) st) =
     (case ex_result x of
        Inl e \<Rightarrow> st_fault st
      | Inr d \<Rightarrow> (case parseReadAllAlarms2Data d of
                   Inl e \<Rightarrow> st_fault st
                 | Inr a \<Rightarrow> if al_ok a then Some (al_fault a) else st_fault st))"
  by (simp add: try_merge_def merge_alarms_def Let_def alarm_fold_frame
        split: sum.splits option.splits)

lemma readUdpStatus_length:
  "length (st_channels (readUdpStatus opts n e1 e2 e3)) = n"
  by (simp add: readUdpStatus_def Let_def try_alarms_frame try_readgm_frame try_standby_frame
        initial_status_def)

lemma readUdpStatus_power:
  "st_power (readUdpStatus opts n e1 e2 e3)
     = st_power (try_merge (standby_exchange opts e1) merge_standby (initial_status n))"
  by (simp add: readUdpStatus_def Let_def try_alarms_frame try_readgm_frame)

lemma readUdpStatus_fault:
  "st_fault (readUdpStatus opts n e1 e2 e3)
     = (case ex_result (alarms_exchange opts e3) of
          Inl e \<Rightarrow> None
        | Inr d \<Rightarrow> (case parseReadAllAlarms2Data d of
                     Inl e \<Rightarrow> None
                   | Inr a \<Rightarrow> if al_ok a then Some (al_fault a) else None))"
proof -
  define s2 where "s2 = try_merge (readgm_exchange opts e2) (\<lambda>d. merge_readgm d n)
      (try_merge (standby_exchange opts e1) merge_standby (initial_status n))"
  have f2: "st_fault s2 = None"
    by (simp add: s2_def try_readgm_frame try_standby_frame initial_status_def)
  have "readUdpStatus opts n e1 e2 e3
      = try_merge (alarms_exchange opts e3) (\<lambda>d. merge_alarms d n) s2"
    by (simp add: readUdpStatus_def Let_def s2_def)
  then show ?thesis
    by (simp only: try_alarms_fault f2)
qed

lemma readUdpStatus_channel:
  assumes "i < n"
  shows "st_channels (readUdpStatus opts n e1 e2 e3) ! i
     = alarm_effect (alarms_exchange opts e3) n i
         (gm_effect (readgm_exchange opts e2) n i empty_channel)"
proof -
  define s1 where "s1 = try_merge (standby_exchange opts e1) merge_standby (initial_status n)"
  define s2 where "s2 = try_merge (readgm_exchange opts e2) (\<lambda>d. merge_readgm d n) s1"
  have c1: "st_channels s1 = replicate n empty_channel"
    by (simp add: s1_def try_standby_frame initial_status_def)
  have l2: "length (st_channels s2) = n"
    by (simp add: s2_def try_readgm_frame c1)
  have c2: "st_channels s2 ! i = gm_effect (readgm_exchange opts e2) n i empty_channel"
    using assms by (simp add: s2_def try_readgm_channel c1)
  have "readUdpStatus opts n e1 e2 e3
      = try_merge (alarms_exchange opts e3) (\<lambda>d. merge_alarms d n) s2"
    by (simp add: readUdpStatus_def Let_def s1_def s2_def)
  then show ?thesis
    using assms by (simp add: try_alarms_channel l2 c2)
qed

lemma alarm_bit_iff: "alarm_bit w k = bit w k"
  by (simp add: alarm_bit_def bit_iff_and_push_bit_not_eq_0)

section \<open>The payload decoders\<close>

lemma alarms_loop_words:
  "alarms_loop data k p ws
     = Inr (ws @ map (\<lambda>j. u32le data (p + 4 * j)) [0..<min k ((length data - p) div 4)])"
proof (induction k arbitrary: p ws)
  case 0
  then show ?case by simp
next
  case (Suc k)
  show ?case
  proof (cases "p + 4 \<le> length data")
    case False
    then have "(length data - p) div 4 = 0" by simp
    with False show ?thesis by simp
  next
    case True
    then have d: "(length data - p) div 4 = Suc ((length data - (p + 4)) div 4)"
      by arith
    have "[0..<Suc (min k ((length data - (p + 4)) div 4))]
        = 0 # map Suc [0..<min k ((length data - (p + 4)) div 4)]"
      by (simp add: upt_conv_Cons map_Suc_upt del: upt_Suc)
    then have m: "map (\<lambda>j. u32le data (p + 4 * j)) [0..<Suc (min k ((length data - (p + 4)) div 4))]
        = u32le data p # map (\<lambda>j. u32le data (p + 4 + 4 * j)) [0..<min k ((length data - (p + 4)) div 4)]"
      by (simp add: comp_def add.assoc del: upt_Suc)
    show ?thesis
      using True Suc.IH [of "p + 4" "ws @ [u32le data p]"]
      by (simp add: bind_err_def readUInt32LE_def d m del: upt_Suc)
  qed
qed

lemma word_cat_bytes:
  "(word_cat (hi :: byte) (lo :: byte) :: 16 word) = word_of_int (uint lo + 256 * uint hi)"
  by (simp add: word_cat_eq push_bit_eq_mult)

lemma uint_byte_bounds: "0 \<le> uint (b :: byte) \<and> uint b < 256"
  using uint_bounded [of b] by simp

lemma uint_word_cat_bytes:
  "uint (word_cat (hi :: byte) (lo :: byte) :: 16 word) = uint lo + 256 * uint hi"
proof -
  define V where "V = uint lo + 256 * uint hi"
  have "0 \<le> V" "V < 65536"
    using uint_byte_bounds [of lo] uint_byte_bounds [of hi] by (simp_all add: V_def)
  then have "uint (word_of_int V :: 16 word) = V"
    by (simp add: uint_word_of_int take_bit_eq_mod)
  then show ?thesis
    unfolding word_cat_bytes V_def .
qed

lemma spec_int16_arith:
  "spec_int16 lo hi =
     (if uint lo + 256 * uint hi \<ge> 32768 then uint lo + 256 * uint hi - 65536
      else uint lo + 256 * uint hi)"
proof -
  define V where "V = uint lo + 256 * uint hi"
  have b: "0 \<le> V" "V < 65536"
    using uint_byte_bounds [of lo] uint_byte_bounds [of hi] by (simp_all add: V_def)
  have "sint (word_cat hi lo :: 16 word) = signed_take_bit 15 V"
    unfolding sint_uint uint_word_cat_bytes V_def by simp
  then have s: "spec_int16 lo hi = (V + 32768) mod 65536 - 32768"
    by (simp add: spec_int16_def signed_take_bit_eq_take_bit_shift take_bit_eq_mod)
  have "spec_int16 lo hi = (if V \<ge> 32768 then V - 65536 else V)"
  proof (cases "V \<ge> 32768")
    case True
    have e: "V + 32768 = (V - 32768) + 65536" by linarith
    have "(V + 32768) mod 65536 = (V - 32768) mod 65536"
      unfolding e by (rule mod_add_self2)
    also have "\<dots> = V - 32768" using True b by (simp add: mod_pos_pos_trivial)
    finally show ?thesis using True s by simp
  next
    case False
    then have "(V + 32768) mod 65536 = V + 32768" using b by (simp add: mod_pos_pos_trivial)
    then show ?thesis using False s by simp
  qed
  then show ?thesis by (simp add: V_def)
qed

lemma s16le_spec: "s16le buf off = spec_int16 (buf ! off) (buf ! (off + 1))"
proof -
  define v where "v = unat (buf ! off) + 256 * unat (buf ! (off + 1))"
  have iv: "int v = uint (buf ! off) + 256 * uint (buf ! (off + 1))"
    by (simp add: v_def)
  have "s16le buf off = (if v \<ge> 32768 then int v - 65536 else int v)"
    unfolding s16le_def Let_def v_def by (rule refl)
  also have "\<dots> = (if 32768 \<le> int v then int v - 65536 else int v)"
    by simp
  finally show ?thesis
    unfolding iv spec_int16_arith .
qed

lemma readgm_loop_channels:
  "readgm_loop data k (2 + 6 * m) chans
     = Inr (chans @ map (spec_gm_channel data)
              [m..<m + min k ((length data - (2 + 6 * m)) div 6)])"
proof (induction k arbitrary: m chans)
  case 0
  then show ?case by simp
next
  case (Suc k)
  show ?case
  proof (cases "2 + 6 * m + 6 > length data")
    case True
    then have "(length data - (2 + 6 * m)) div 6 = 0" by simp
    with True show ?thesis by simp
  next
    case False
    then have e: "length data - (2 + 6 * m) = (length data - (2 + 6 * Suc m)) + 6"
      by simp
    have d: "(length data - (2 + 6 * m)) div 6 = Suc ((length data - (2 + 6 * Suc m)) div 6)"
      unfolding e by simp
    have r1: "readInt16LE data (2 + 6 * m) = Inr (s16le data (2 + 6 * m))"
      and r2: "readInt16LE data (2 + 6 * m + 2) = Inr (s16le data (2 + 6 * m + 2))"
      using False by (simp_all add: readInt16LE_def)
    have ch: "\<lparr>gm_inGain = Some (real_of_int (s16le data (2 + 6 * m)) / 100),
              gm_outGain = Some (real_of_int (s16le data (2 + 6 * m + 2)) / 100),
              gm_inMute = Some (data ! (2 + 6 * m + 4) = 1),
              gm_outMute = Some (data ! (2 + 6 * m + 5) = 1)\<rparr> = spec_gm_channel data m"
    proof -
      have a3: "2 + 6 * m + 2 + 1 = 2 + 6 * m + 3" by simp
      have i1: "s16le data (2 + 6 * m) = spec_int16 (data ! (2 + 6 * m)) (data ! (2 + 6 * m + 1))"
        by (rule s16le_spec)
      have i2: "s16le data (2 + 6 * m + 2)
          = spec_int16 (data ! (2 + 6 * m + 2)) (data ! (2 + 6 * m + 3))"
        using s16le_spec [of data "2 + 6 * m + 2"] unfolding a3 .
      show ?thesis
        unfolding spec_gm_channel_def Let_def i1 i2 by (rule refl)
    qed
    have step: "readgm_loop data (Suc k) (2 + 6 * m) chans
        = readgm_loop data k (2 + 6 * Suc m) (chans @ [spec_gm_channel data m])"
      using False unfolding readgm_loop.simps r1 r2 bind_err_def sum.case Let_def ch
      by simp
    define q where "q = (length data - (2 + 6 * Suc m)) div 6"
    have l: "[m..<m + Suc (min k q)] = m # [Suc m..<Suc m + min k q]"
      by (simp add: upt_conv_Cons del: upt_Suc)
    have "readgm_loop data (Suc k) (2 + 6 * m) chans
        = Inr ((chans @ [spec_gm_channel data m]) @ map (spec_gm_channel data)
              [Suc m..<Suc m + min k q])"
      unfolding step Suc.IH [of "Suc m"] q_def by (rule refl)
    also have "\<dots> = Inr (chans @ map (spec_gm_channel data) [m..<m + Suc (min k q)])"
      unfolding l by simp
    also have "Suc (min k q) = min (Suc k) ((length data - (2 + 6 * m)) div 6)"
      unfolding d q_def by simp
    finally show ?thesis .
  qed
qed

text \<open>
  C6. For a payload of at least 2 bytes the gain/mute decoder does not fail. It takes the
  answer-ok flag from byte 0 and the channel count from byte 1, caps the count at
  \<open>maxChannels\<close>, and returns, in order, the channels whose six bytes lie entirely inside
  the buffer: as many as the capped count, or as many as fit when the buffer ends early.
  Each channel is read as the specification lays it out: input gain and output gain as
  little-endian signed 16-bit hundredths of a decibel divided by 100, then input mute and
  output mute as "byte equals 1".
\<close>

theorem parseReadgmData_table:
  assumes "length data \<ge> 2"
  shows "parseReadgmData data maxChannels
     = Inr \<lparr>gm_ok = (data ! 0 = 1),
            gm_channels = map (spec_gm_channel data)
              [0..<min (min (unat (data ! 1)) maxChannels) ((length data - 2) div 6)]\<rparr>"
  using assms readgm_loop_channels [of data "min (unat (data ! 1)) maxChannels" 0 "[]"]
  by (simp add: parseReadgmData_def Let_def bind_err_def)

text \<open>
  C7. The alarm decoder returns no fault data (not ok, fault false, no words) when the
  payload is empty or its byte 0 is not 1. When byte 0 is 1 and the payload holds the
  32-bit global word (8 bytes at least), it returns the global word read at offset 4 and
  the per-channel words read from offset 8, at most eight and only those lying entirely
  inside the buffer, and the fault flag is true exactly when the global word or one of
  those per-channel words is not zero.
\<close>

theorem parseReadAllAlarms2Data_fault:
  "(length data < 1 \<or> data ! 0 \<noteq> 1 \<longrightarrow>
      parseReadAllAlarms2Data data
        = Inr \<lparr>al_ok = False, al_fault = False, al_gpio = None, al_global = None,
               al_channelWords = None\<rparr>)
   \<and> (8 \<le> length data \<and> data ! 0 = 1 \<longrightarrow>
        (let global = u32le data 4;
             ws = map (\<lambda>j. u32le data (8 + 4 * j)) [0..<min 8 ((length data - 8) div 4)]
         in parseReadAllAlarms2Data data
              = Inr \<lparr>al_ok = True, al_fault = (global \<noteq> 0 \<or> (\<exists>w \<in> set ws. w \<noteq> 0)),
                     al_gpio = Some (unat (data ! 1)), al_global = Some global,
                     al_channelWords = Some ws\<rparr>))"
proof -
  have a: "length data < 1 \<or> data ! 0 \<noteq> 1 \<Longrightarrow>
      parseReadAllAlarms2Data data
        = Inr \<lparr>al_ok = False, al_fault = False, al_gpio = None, al_global = None,
               al_channelWords = None\<rparr>"
    by (auto simp add: parseReadAllAlarms2Data_def Let_def)
  have b: "8 \<le> length data \<and> data ! 0 = 1 \<Longrightarrow>
        (let global = u32le data 4;
             ws = map (\<lambda>j. u32le data (8 + 4 * j)) [0..<min 8 ((length data - 8) div 4)]
         in parseReadAllAlarms2Data data
              = Inr \<lparr>al_ok = True, al_fault = (global \<noteq> 0 \<or> (\<exists>w \<in> set ws. w \<noteq> 0)),
                     al_gpio = Some (unat (data ! 1)), al_global = Some global,
                     al_channelWords = Some ws\<rparr>)"
  proof -
    assume h: "8 \<le> length data \<and> data ! 0 = 1"
    have n: "(1::nat) + 1 + 2 + 4 = 8" "(1::nat) + 1 + 2 = 4" "(4::nat) + 4 = 8" by simp_all
    have r: "readUInt32LE data 4 = Inr (u32le data 4)"
      using h by (simp add: readUInt32LE_def)
    have g: "\<not> length data < 1" "\<not> length data < 8" "data ! 0 = 1"
      using h by auto
    show ?thesis
      unfolding parseReadAllAlarms2Data_def Let_def n
      by (simp only: g r bind_err_def alarms_loop_words [of data 8 8 "[]"] list_ex_iff
            if_False if_True sum.case append_Nil not_not not_True_eq_False refl)
  qed
  from a b show ?thesis by blast
qed

section \<open>The snapshot\<close>

lemma gm_effect_fields:
  "ch_clip (gm_effect x n i c) = ch_clip c \<and> ch_overTemp (gm_effect x n i c) = ch_overTemp c
   \<and> ch_lowLoad (gm_effect x n i c) = ch_lowLoad c
   \<and> ch_railFault (gm_effect x n i c) = ch_railFault c
   \<and> ch_otherFault (gm_effect x n i c) = ch_otherFault c
   \<and> ch_thermalSOA (gm_effect x n i c) = ch_thermalSOA c
   \<and> ch_auxCurrentFault (gm_effect x n i c) = ch_auxCurrentFault c"
  by (simp add: gm_effect_def gm_update_alarm_fields split: sum.splits)

lemma alarm_effect_fields:
  "ch_mute (alarm_effect x n i c) = ch_mute c \<and> ch_gain (alarm_effect x n i c) = ch_gain c"
  by (simp add: alarm_effect_def alarm_flags_gm_fields split: sum.splits option.splits)

lemma gm_effect_failed: "ex_result x = Inl e \<Longrightarrow> gm_effect x n i c = c"
  by (simp add: gm_effect_def)

lemma alarm_effect_failed: "ex_result x = Inl e \<Longrightarrow> alarm_effect x n i c = c"
  by (simp add: alarm_effect_def)

lemma alarm_effect_cong:
  "ch_clip c = ch_clip c' \<Longrightarrow> ch_clip (alarm_effect x n i c) = ch_clip (alarm_effect x n i c')"
  "ch_overTemp c = ch_overTemp c' \<Longrightarrow>
     ch_overTemp (alarm_effect x n i c) = ch_overTemp (alarm_effect x n i c')"
  "ch_lowLoad c = ch_lowLoad c' \<Longrightarrow>
     ch_lowLoad (alarm_effect x n i c) = ch_lowLoad (alarm_effect x n i c')"
  "ch_railFault c = ch_railFault c' \<Longrightarrow>
     ch_railFault (alarm_effect x n i c) = ch_railFault (alarm_effect x n i c')"
  "ch_otherFault c = ch_otherFault c' \<Longrightarrow>
     ch_otherFault (alarm_effect x n i c) = ch_otherFault (alarm_effect x n i c')"
  "ch_thermalSOA c = ch_thermalSOA c' \<Longrightarrow>
     ch_thermalSOA (alarm_effect x n i c) = ch_thermalSOA (alarm_effect x n i c')"
  "ch_auxCurrentFault c = ch_auxCurrentFault c' \<Longrightarrow>
     ch_auxCurrentFault (alarm_effect x n i c) = ch_auxCurrentFault (alarm_effect x n i c')"
  by (simp_all add: alarm_effect_def alarm_flags_def split: sum.splits option.splits)

lemma readUdpStatus_gm_fields:
  assumes "i < n"
  shows "ch_mute (st_channels (readUdpStatus opts n e1 e2 e3) ! i)
           = ch_mute (gm_effect (readgm_exchange opts e2) n i empty_channel)"
    and "ch_gain (st_channels (readUdpStatus opts n e1 e2 e3) ! i)
           = ch_gain (gm_effect (readgm_exchange opts e2) n i empty_channel)"
  by (simp_all add: readUdpStatus_channel [OF assms] alarm_effect_fields)

lemma readUdpStatus_alarm_fields:
  assumes "i < n"
  shows "ch_clip (st_channels (readUdpStatus opts n e1 e2 e3) ! i)
           = ch_clip (alarm_effect (alarms_exchange opts e3) n i empty_channel)"
    and "ch_overTemp (st_channels (readUdpStatus opts n e1 e2 e3) ! i)
           = ch_overTemp (alarm_effect (alarms_exchange opts e3) n i empty_channel)"
    and "ch_lowLoad (st_channels (readUdpStatus opts n e1 e2 e3) ! i)
           = ch_lowLoad (alarm_effect (alarms_exchange opts e3) n i empty_channel)"
    and "ch_railFault (st_channels (readUdpStatus opts n e1 e2 e3) ! i)
           = ch_railFault (alarm_effect (alarms_exchange opts e3) n i empty_channel)"
    and "ch_otherFault (st_channels (readUdpStatus opts n e1 e2 e3) ! i)
           = ch_otherFault (alarm_effect (alarms_exchange opts e3) n i empty_channel)"
    and "ch_thermalSOA (st_channels (readUdpStatus opts n e1 e2 e3) ! i)
           = ch_thermalSOA (alarm_effect (alarms_exchange opts e3) n i empty_channel)"
    and "ch_auxCurrentFault (st_channels (readUdpStatus opts n e1 e2 e3) ! i)
           = ch_auxCurrentFault (alarm_effect (alarms_exchange opts e3) n i empty_channel)"
  unfolding readUdpStatus_channel [OF assms]
  by (rule alarm_effect_cong, simp add: gm_effect_fields)+

text \<open>
  C3, as amended. After a power-state exchange that returned a payload whose answer-ok
  byte is 1 and which holds the raw state code (byte 1), the power field of the snapshot
  is true when the raw state code is 2, and false for every other raw code, 1 included.
\<close>

theorem power_follows_standby_code:
  assumes "ex_result (standby_exchange opts e1) = Inr d" and "2 \<le> length d" and "d ! 0 = 1"
  shows "st_power (readUdpStatus opts n e1 e2 e3) = Some (d ! 1 = 2)"
  using assms
  by (simp add: readUdpStatus_power try_merge_def merge_standby_def parseStandbyData_def
        Let_def unat_byte_eq_2)

text \<open>
  C4. For every per-channel alarm word that the alarm stage merges into the snapshot (a
  word of a successful, ok alarm exchange, for a channel below \<open>maxChannels\<close>, and not
  zero), the flags of that channel are the bits of the word: bit 0 clip, bit 1 thermal
  safe-operating-area violation, bit 3 over-temperature, bit 4 rail-voltage fault, bit 5
  auxiliary-current fault, bit 6 other-fault, bit 7 low-load protection.
\<close>

theorem alarm_word_bits:
  assumes "ex_result (alarms_exchange opts e3) = Inr d"
    and "parseReadAllAlarms2Data d = Inr a" and "al_ok a" and "al_channelWords a = Some ws"
    and "i < length ws" and "i < n" and "ws ! i \<noteq> 0"
  shows "ch_clip (st_channels (readUdpStatus opts n e1 e2 e3) ! i) = Some (bit (ws ! i) 0)
       \<and> ch_thermalSOA (st_channels (readUdpStatus opts n e1 e2 e3) ! i) = Some (bit (ws ! i) 1)
       \<and> ch_overTemp (st_channels (readUdpStatus opts n e1 e2 e3) ! i) = Some (bit (ws ! i) 3)
       \<and> ch_railFault (st_channels (readUdpStatus opts n e1 e2 e3) ! i) = Some (bit (ws ! i) 4)
       \<and> ch_auxCurrentFault (st_channels (readUdpStatus opts n e1 e2 e3) ! i)
           = Some (bit (ws ! i) 5)
       \<and> ch_otherFault (st_channels (readUdpStatus opts n e1 e2 e3) ! i) = Some (bit (ws ! i) 6)
       \<and> ch_lowLoad (st_channels (readUdpStatus opts n e1 e2 e3) ! i) = Some (bit (ws ! i) 7)"
proof -
  have "alarm_effect (alarms_exchange opts e3) n i empty_channel
      = alarm_flags (ws ! i) empty_channel"
    using assms by (simp add: alarm_effect_def)
  then show ?thesis
    using assms(6)
    by (simp add: readUdpStatus_alarm_fields alarm_flags_def alarm_bit_iff)
qed

text \<open>
  C10. When a successful, ok alarm exchange carries the word zero for a channel, none of
  the seven alarm fields of that channel is written: all are unset in the snapshot, and
  the channel's entry is the same as in the snapshot of a poll whose alarm exchange
  failed.
\<close>

theorem zero_alarm_word_writes_nothing:
  assumes "ex_result (alarms_exchange opts e3) = Inr d"
    and "parseReadAllAlarms2Data d = Inr a" and "al_ok a" and "al_channelWords a = Some ws"
    and "i < length ws" and "i < n" and "ws ! i = 0"
    and "ex_result (alarms_exchange opts e3') = Inl err"
  shows "ch_clip (st_channels (readUdpStatus opts n e1 e2 e3) ! i) = None
       \<and> ch_thermalSOA (st_channels (readUdpStatus opts n e1 e2 e3) ! i) = None
       \<and> ch_overTemp (st_channels (readUdpStatus opts n e1 e2 e3) ! i) = None
       \<and> ch_railFault (st_channels (readUdpStatus opts n e1 e2 e3) ! i) = None
       \<and> ch_auxCurrentFault (st_channels (readUdpStatus opts n e1 e2 e3) ! i) = None
       \<and> ch_otherFault (st_channels (readUdpStatus opts n e1 e2 e3) ! i) = None
       \<and> ch_lowLoad (st_channels (readUdpStatus opts n e1 e2 e3) ! i) = None
       \<and> st_channels (readUdpStatus opts n e1 e2 e3) ! i
           = st_channels (readUdpStatus opts n e1 e2 e3') ! i"
proof -
  have z: "\<And>c. alarm_effect (alarms_exchange opts e3) n i c = c"
    using assms by (simp add: alarm_effect_def)
  have f: "\<And>c. alarm_effect (alarms_exchange opts e3') n i c = c"
    using assms(8) by (simp add: alarm_effect_def)
  have fields: "ch_clip (st_channels (readUdpStatus opts n e1 e2 e3) ! i) = None
       \<and> ch_thermalSOA (st_channels (readUdpStatus opts n e1 e2 e3) ! i) = None
       \<and> ch_overTemp (st_channels (readUdpStatus opts n e1 e2 e3) ! i) = None
       \<and> ch_railFault (st_channels (readUdpStatus opts n e1 e2 e3) ! i) = None
       \<and> ch_auxCurrentFault (st_channels (readUdpStatus opts n e1 e2 e3) ! i) = None
       \<and> ch_otherFault (st_channels (readUdpStatus opts n e1 e2 e3) ! i) = None
       \<and> ch_lowLoad (st_channels (readUdpStatus opts n e1 e2 e3) ! i) = None"
    using assms(6) by (simp add: readUdpStatus_alarm_fields z empty_channel_def)
  have same: "st_channels (readUdpStatus opts n e1 e2 e3) ! i
           = st_channels (readUdpStatus opts n e1 e2 e3') ! i"
    using assms(6) by (simp add: readUdpStatus_channel z f)
  from fields same show ?thesis by simp
qed

lemma silent_exchanges:
  "ex_result (standby_exchange demo_opts silent_env) = Inl UdpTimeout"
  "ex_result (readgm_exchange demo_opts silent_env) = Inl UdpTimeout"
  "ex_result (alarms_exchange demo_opts silent_env) = Inl UdpTimeout"
  by (simp_all add: standby_exchange_def readgm_exchange_def alarms_exchange_def
        udpRequest_def Let_def)

lemma standby_reply_exchange:
  "ex_result (standby_exchange demo_opts (reply_env (standby_reply raw))) = Inr [0x01, raw, 0, 0]"
  by (simp add: standby_exchange_def udpRequest_def Let_def on_message_def parseHeader_unfold
        inv_cmd_def CMD_STANDBY_def)

lemma alarm_reply_exchange:
  "ex_result (alarms_exchange demo_opts (reply_env alarm_reply)) = Inr alarm_payload"
  by (simp add: alarms_exchange_def udpRequest_def Let_def on_message_def parseHeader_unfold
        inv_cmd_def CMD_READALLALARMS2_def)

lemma alarm_payload_parse:
  "parseReadAllAlarms2Data alarm_payload
     = Inr \<lparr>al_ok = True, al_fault = True, al_gpio = Some 0, al_global = Some 0,
            al_channelWords = Some [0x83, 0]\<rparr>"
proof -
  have u2: "[0..<(2::nat)] = [0, 1]" by (simp add: numeral_2_eq_2)
  show ?thesis
    by (simp add: parseReadAllAlarms2Data_def Let_def bind_err_def readUInt32LE_def u32le_def
          alarms_loop_words u2)
qed

text \<open>
  C3 as stated fails: with answer-ok 1 and the raw state code 3, which is neither 1 nor 2,
  the power field is not left unset but is false.
\<close>

theorem power_unknown_code_counterexample:
  "st_power (readUdpStatus demo_opts 2 (reply_env (standby_reply 3)) silent_env silent_env)
     = Some False"
  by (simp add: readUdpStatus_power try_merge_def standby_reply_exchange merge_standby_def
        parseStandbyData_def Let_def)

theorem power_follows_standby_code_witness:
  "ex_result (standby_exchange demo_opts (reply_env (standby_reply 2))) = Inr [0x01, 0x02, 0, 0]
   \<and> 2 \<le> length [0x01, 0x02, 0, 0 :: byte] \<and> [0x01, 0x02, 0, 0 :: byte] ! 0 = 1
   \<and> st_power (readUdpStatus demo_opts 2 (reply_env (standby_reply 2)) silent_env silent_env)
       = Some True"
  using power_follows_standby_code [of demo_opts "reply_env (standby_reply 2)" "[0x01, 0x02, 0, 0]"
      2 silent_env silent_env]
  by (simp add: standby_reply_exchange)

theorem alarm_word_bits_witness:
  "ex_result (alarms_exchange demo_opts (reply_env alarm_reply)) = Inr alarm_payload
   \<and> parseReadAllAlarms2Data alarm_payload
       = Inr \<lparr>al_ok = True, al_fault = True, al_gpio = Some 0, al_global = Some 0,
              al_channelWords = Some [0b10000011, 0]\<rparr>
   \<and> (0::nat) < length [0b10000011, 0 :: 32 word] \<and> (0::nat) < 2
   \<and> [0b10000011, 0 :: 32 word] ! 0 \<noteq> 0
   \<and> ch_clip (st_channels (readUdpStatus demo_opts 2 silent_env silent_env
         (reply_env alarm_reply)) ! 0) = Some True
   \<and> ch_thermalSOA (st_channels (readUdpStatus demo_opts 2 silent_env silent_env
         (reply_env alarm_reply)) ! 0) = Some True
   \<and> ch_overTemp (st_channels (readUdpStatus demo_opts 2 silent_env silent_env
         (reply_env alarm_reply)) ! 0) = Some False
   \<and> ch_railFault (st_channels (readUdpStatus demo_opts 2 silent_env silent_env
         (reply_env alarm_reply)) ! 0) = Some False
   \<and> ch_auxCurrentFault (st_channels (readUdpStatus demo_opts 2 silent_env silent_env
         (reply_env alarm_reply)) ! 0) = Some False
   \<and> ch_otherFault (st_channels (readUdpStatus demo_opts 2 silent_env silent_env
         (reply_env alarm_reply)) ! 0) = Some False
   \<and> ch_lowLoad (st_channels (readUdpStatus demo_opts 2 silent_env silent_env
         (reply_env alarm_reply)) ! 0) = Some True"
proof -
  have b: "bit (131 :: 32 word) 0" "bit (131 :: 32 word) 1" "\<not> bit (131 :: 32 word) 3"
    "\<not> bit (131 :: 32 word) 4" "\<not> bit (131 :: 32 word) 5" "\<not> bit (131 :: 32 word) 6"
    "bit (131 :: 32 word) 7"
    by (simp_all add: bit_iff_odd drop_bit_eq_div)
  have p: "parseReadAllAlarms2Data alarm_payload
       = Inr \<lparr>al_ok = True, al_fault = True, al_gpio = Some 0, al_global = Some 0,
              al_channelWords = Some [131, 0]\<rparr>"
    by (rule alarm_payload_parse)
  show ?thesis
    using alarm_word_bits [where opts = demo_opts
        and ?e3.0 = "reply_env alarm_reply" and d = alarm_payload
        and a = "\<lparr>al_ok = True, al_fault = True, al_gpio = Some 0, al_global = Some 0,
              al_channelWords = Some [131, 0]\<rparr>"
        and ws = "[131, 0]" and i = 0 and n = 2
        and ?e1.0 = silent_env and ?e2.0 = silent_env] b
    by (simp add: alarm_reply_exchange p)
qed

theorem zero_alarm_word_writes_nothing_witness:
  "ex_result (alarms_exchange demo_opts (reply_env alarm_reply)) = Inr alarm_payload
   \<and> parseReadAllAlarms2Data alarm_payload
       = Inr \<lparr>al_ok = True, al_fault = True, al_gpio = Some 0, al_global = Some 0,
              al_channelWords = Some [0b10000011, 0]\<rparr>
   \<and> (1::nat) < length [0b10000011, 0 :: 32 word] \<and> (1::nat) < 2
   \<and> [0b10000011, 0 :: 32 word] ! 1 = 0
   \<and> ex_result (alarms_exchange demo_opts silent_env) = Inl UdpTimeout
   \<and> ch_clip (st_channels (readUdpStatus demo_opts 2 silent_env silent_env
         (reply_env alarm_reply)) ! 1) = None
   \<and> ch_lowLoad (st_channels (readUdpStatus demo_opts 2 silent_env silent_env
         (reply_env alarm_reply)) ! 1) = None
   \<and> st_channels (readUdpStatus demo_opts 2 silent_env silent_env (reply_env alarm_reply)) ! 1
       = st_channels (readUdpStatus demo_opts 2 silent_env silent_env silent_env) ! 1"
proof -
  have p: "parseReadAllAlarms2Data alarm_payload
       = Inr \<lparr>al_ok = True, al_fault = True, al_gpio = Some 0, al_global = Some 0,
              al_channelWords = Some [131, 0]\<rparr>"
    by (rule alarm_payload_parse)
  have k: "al_ok \<lparr>al_ok = True, al_fault = True, al_gpio = Some 0, al_global = Some 0,
              al_channelWords = Some [131, 0]\<rparr>"
    "al_channelWords \<lparr>al_ok = True, al_fault = True, al_gpio = Some 0, al_global = Some 0,
              al_channelWords = Some [131, 0]\<rparr> = Some [131, 0]"
    "(1::nat) < length [131, 0 :: 32 word]" "(1::nat) < 2" "[131, 0 :: 32 word] ! 1 = 0"
    by simp_all
  note t = zero_alarm_word_writes_nothing [OF alarm_reply_exchange p k silent_exchanges(3),
      of silent_env silent_env]
  show ?thesis
    by (intro conjI;
        (rule alarm_reply_exchange p silent_exchanges(3) t [THEN conjunct1]
           t [THEN conjunct2, THEN conjunct2, THEN conjunct2, THEN conjunct2, THEN conjunct2,
              THEN conjunct2, THEN conjunct1]
           t [THEN conjunct2, THEN conjunct2, THEN conjunct2, THEN conjunct2, THEN conjunct2,
              THEN conjunct2, THEN conjunct2]
         | simp))
qed

theorem parseReadgmData_table_witness:
  "2 \<le> length [0x01, 0x02, 0x6a, 0xff, 0x2c, 0x01, 0x01, 0x00, 9, 9, 9 :: byte]
   \<and> parseReadgmData [0x01, 0x02, 0x6a, 0xff, 0x2c, 0x01, 0x01, 0x00, 9, 9, 9] 4
       = Inr \<lparr>gm_ok = True,
              gm_channels = [\<lparr>gm_inGain = Some (- 3 / 2), gm_outGain = Some 3,
                               gm_inMute = Some True, gm_outMute = Some False\<rparr>]\<rparr>"
  using parseReadgmData_table [of "[0x01, 0x02, 0x6a, 0xff, 0x2c, 0x01, 0x01, 0x00, 9, 9, 9]" 4]
  by (simp add: spec_gm_channel_def Let_def spec_int16_arith)

theorem parseReadAllAlarms2Data_fault_witness:
  "(length [0x00, 0x07 :: byte] < 1 \<or> [0x00, 0x07 :: byte] ! 0 \<noteq> 1)
   \<and> parseReadAllAlarms2Data [0x00, 0x07]
       = Inr \<lparr>al_ok = False, al_fault = False, al_gpio = None, al_global = None,
              al_channelWords = None\<rparr>
   \<and> 8 \<le> length alarm_payload \<and> alarm_payload ! 0 = 1
   \<and> parseReadAllAlarms2Data alarm_payload
       = Inr \<lparr>al_ok = True, al_fault = True, al_gpio = Some 0, al_global = Some 0,
              al_channelWords = Some [0b10000011, 0]\<rparr>"
proof -
  have u2: "[0..<(2::nat)] = [0, 1]" by (simp add: numeral_2_eq_2)
  show ?thesis
    using parseReadAllAlarms2Data_fault [of "[0x00, 0x07]"]
      parseReadAllAlarms2Data_fault [of alarm_payload]
    by (simp add: Let_def u32le_def u2)
qed

lemma parseReadgmData_closed:
  "2 \<le> length d \<Longrightarrow>
   parseReadgmData d n
     = Inr \<lparr>gm_ok = (d ! 0 = 1),
            gm_channels = map (spec_gm_channel d)
              [0..<min (min (unat (d ! 1)) n) ((length d - 2) div 6)]\<rparr>"
  using readgm_loop_channels [of d "min (unat (d ! 1)) n" 0 "[]"]
  by (simp add: parseReadgmData_def Let_def bind_err_def)

lemma gm_update_spec_channel:
  "ch_mute (gm_update (spec_gm_channel d i) c) = Some (d ! (2 + 6 * i + 5) = 1)
   \<and> ch_gain (gm_update (spec_gm_channel d i) c)
       = Some (real_of_int (spec_int16 (d ! (2 + 6 * i + 2)) (d ! (2 + 6 * i + 3))) / 100)"
  unfolding spec_gm_channel_def gm_update_def Let_def by simp

lemma gm_effect_ok:
  assumes "ex_result x = Inr d" and "2 \<le> length d" and "d ! 0 = 1"
    and "i < min (min (unat (d ! 1)) n) ((length d - 2) div 6)"
  shows "gm_effect x n i c = gm_update (spec_gm_channel d i) c"
  using assms by (simp add: gm_effect_def parseReadgmData_closed)

lemma parseReadAllAlarms2Data_short:
  assumes "d \<noteq> []" and "d ! 0 = 1" and "length d < 8"
  shows "parseReadAllAlarms2Data d
     = Inr \<lparr>al_ok = True, al_fault = False, al_gpio = None, al_global = None,
            al_channelWords = None\<rparr>"
  using assms by (simp add: parseReadAllAlarms2Data_def Let_def)

lemma parseReadAllAlarms2Data_closed:
  assumes "8 \<le> length d" and "d ! 0 = 1"
  shows "parseReadAllAlarms2Data d
     = Inr \<lparr>al_ok = True,
            al_fault = (u32le d 4 \<noteq> 0
               \<or> list_ex (\<lambda>w. w \<noteq> 0)
                   (map (\<lambda>j. u32le d (8 + 4 * j)) [0..<min 8 ((length d - 8) div 4)])),
            al_gpio = Some (unat (d ! 1)), al_global = Some (u32le d 4),
            al_channelWords
              = Some (map (\<lambda>j. u32le d (8 + 4 * j)) [0..<min 8 ((length d - 8) div 4)])\<rparr>"
proof -
  have n: "(1::nat) + 1 + 2 + 4 = 8" "(1::nat) + 1 + 2 = 4" "(4::nat) + 4 = 8" by simp_all
  have r: "readUInt32LE d 4 = Inr (u32le d 4)"
    using assms by (simp add: readUInt32LE_def)
  have g: "\<not> length d < 1" "\<not> length d < 8" "d ! 0 = 1"
    using assms by auto
  show ?thesis
    unfolding parseReadAllAlarms2Data_def Let_def n
    by (simp only: g r bind_err_def alarms_loop_words [of d 8 8 "[]"]
          if_False if_True sum.case append_Nil not_not not_True_eq_False refl)
qed

lemma alarm_effect_ok:
  assumes "ex_result x = Inr d" and "8 \<le> length d" and "d ! 0 = 1"
    and "i < n" and "i < min 8 ((length d - 8) div 4)" and "u32le d (8 + 4 * i) \<noteq> 0"
  shows "alarm_effect x n i c = alarm_flags (u32le d (8 + 4 * i)) c"
  using assms by (simp add: alarm_effect_def parseReadAllAlarms2Data_closed)

lemma gm_reply_exchange:
  "ex_result (readgm_exchange demo_opts (reply_env gm_reply)) = Inr gm_payload"
  by (simp add: readgm_exchange_def udpRequest_def Let_def on_message_def parseHeader_unfold
        inv_cmd_def CMD_READGM_def)

text \<open>
  C5. \<open>readUdpStatus\<close> returns a snapshot with \<open>maxChannels\<close> channel entries whatever
  the three exchanges do. Each part of the snapshot depends on its own exchange only: the
  power field on the power-state exchange, mute and gain of every channel on the
  gain/mute exchange, the fault field and the seven alarm fields of every channel on the
  alarm exchange; replacing the other two exchanges by any others, failing ones included,
  does not change it. When an exchange fails (bind or send error, timeout, malformed or
  mismatched reply), its fields are unset, not false. When an exchange succeeds with an
  ok payload, its result is in the snapshot whatever the other two do: the power field is
  "raw state code is 2"; every channel the gain/mute table holds has the table's output
  mute and output gain; the fault field is "the global word or a decoded channel word is
  not zero" (false when the payload is too short for the global word); and every channel
  with a decoded alarm word has the seven flags from bits 0, 1, 3, 4, 5, 6, 7 of a
  non-zero word and no flags from a zero word.
\<close>

theorem readUdpStatus_partial_snapshot:
  "length (st_channels (readUdpStatus opts n e1 e2 e3)) = n
   \<and> st_power (readUdpStatus opts n e1 e2 e3) = st_power (readUdpStatus opts n e1 e2' e3')
   \<and> st_fault (readUdpStatus opts n e1 e2 e3) = st_fault (readUdpStatus opts n e1' e2' e3)
   \<and> (\<forall>i<n. ch_mute (st_channels (readUdpStatus opts n e1 e2 e3) ! i)
               = ch_mute (st_channels (readUdpStatus opts n e1' e2 e3') ! i)
            \<and> ch_gain (st_channels (readUdpStatus opts n e1 e2 e3) ! i)
               = ch_gain (st_channels (readUdpStatus opts n e1' e2 e3') ! i))
   \<and> (\<forall>i<n. ch_clip (st_channels (readUdpStatus opts n e1 e2 e3) ! i)
               = ch_clip (st_channels (readUdpStatus opts n e1' e2' e3) ! i)
            \<and> ch_thermalSOA (st_channels (readUdpStatus opts n e1 e2 e3) ! i)
               = ch_thermalSOA (st_channels (readUdpStatus opts n e1' e2' e3) ! i)
            \<and> ch_overTemp (st_channels (readUdpStatus opts n e1 e2 e3) ! i)
               = ch_overTemp (st_channels (readUdpStatus opts n e1' e2' e3) ! i)
            \<and> ch_railFault (st_channels (readUdpStatus opts n e1 e2 e3) ! i)
               = ch_railFault (st_channels (readUdpStatus opts n e1' e2' e3) ! i)
            \<and> ch_auxCurrentFault (st_channels (readUdpStatus opts n e1 e2 e3) ! i)
               = ch_auxCurrentFault (st_channels (readUdpStatus opts n e1' e2' e3) ! i)
            \<and> ch_otherFault (st_channels (readUdpStatus opts n e1 e2 e3) ! i)
               = ch_otherFault (st_channels (readUdpStatus opts n e1' e2' e3) ! i)
            \<and> ch_lowLoad (st_channels (readUdpStatus opts n e1 e2 e3) ! i)
               = ch_lowLoad (st_channels (readUdpStatus opts n e1' e2' e3) ! i))
   \<and> (isl (ex_result (standby_exchange opts e1))
        \<longrightarrow> st_power (readUdpStatus opts n e1 e2 e3) = None)
   \<and> (isl (ex_result (readgm_exchange opts e2))
        \<longrightarrow> (\<forall>i<n. ch_mute (st_channels (readUdpStatus opts n e1 e2 e3) ! i) = None
                 \<and> ch_gain (st_channels (readUdpStatus opts n e1 e2 e3) ! i) = None))
   \<and> (isl (ex_result (alarms_exchange opts e3))
        \<longrightarrow> st_fault (readUdpStatus opts n e1 e2 e3) = None
            \<and> (\<forall>i<n. ch_clip (st_channels (readUdpStatus opts n e1 e2 e3) ! i) = None
                 \<and> ch_thermalSOA (st_channels (readUdpStatus opts n e1 e2 e3) ! i) = None
                 \<and> ch_overTemp (st_channels (readUdpStatus opts n e1 e2 e3) ! i) = None
                 \<and> ch_railFault (st_channels (readUdpStatus opts n e1 e2 e3) ! i) = None
                 \<and> ch_auxCurrentFault (st_channels (readUdpStatus opts n e1 e2 e3) ! i) = None
                 \<and> ch_otherFault (st_channels (readUdpStatus opts n e1 e2 e3) ! i) = None
                 \<and> ch_lowLoad (st_channels (readUdpStatus opts n e1 e2 e3) ! i) = None))
   \<and> (ex_result (standby_exchange opts e1) = Inr d1 \<and> 2 \<le> length d1 \<and> d1 ! 0 = 1
        \<longrightarrow> st_power (readUdpStatus opts n e1 e2 e3) = Some (d1 ! 1 = 2))
   \<and> (ex_result (readgm_exchange opts e2) = Inr d2 \<and> 2 \<le> length d2 \<and> d2 ! 0 = 1
        \<longrightarrow> (\<forall>i<min (min (unat (d2 ! 1)) n) ((length d2 - 2) div 6).
               ch_mute (st_channels (readUdpStatus opts n e1 e2 e3) ! i) = Some (d2 ! (2 + 6 * i + 5) = 1)
             \<and> ch_gain (st_channels (readUdpStatus opts n e1 e2 e3) ! i)
                 = Some (real_of_int (spec_int16 (d2 ! (2 + 6 * i + 2)) (d2 ! (2 + 6 * i + 3)))
                     / 100)))
   \<and> (ex_result (alarms_exchange opts e3) = Inr d3 \<and> 8 \<le> length d3 \<and> d3 ! 0 = 1
        \<longrightarrow> st_fault (readUdpStatus opts n e1 e2 e3)
              = Some (u32le d3 4 \<noteq> 0
                  \<or> (\<exists>j<min 8 ((length d3 - 8) div 4). u32le d3 (8 + 4 * j) \<noteq> 0))
            \<and> (\<forall>i<min n (min 8 ((length d3 - 8) div 4)).
               ch_clip (st_channels (readUdpStatus opts n e1 e2 e3) ! i)
                 = (if u32le d3 (8 + 4 * i) = 0 then None
                    else Some (bit (u32le d3 (8 + 4 * i)) 0))
             \<and> ch_thermalSOA (st_channels (readUdpStatus opts n e1 e2 e3) ! i)
                 = (if u32le d3 (8 + 4 * i) = 0 then None
                    else Some (bit (u32le d3 (8 + 4 * i)) 1))
             \<and> ch_overTemp (st_channels (readUdpStatus opts n e1 e2 e3) ! i)
                 = (if u32le d3 (8 + 4 * i) = 0 then None
                    else Some (bit (u32le d3 (8 + 4 * i)) 3))
             \<and> ch_railFault (st_channels (readUdpStatus opts n e1 e2 e3) ! i)
                 = (if u32le d3 (8 + 4 * i) = 0 then None
                    else Some (bit (u32le d3 (8 + 4 * i)) 4))
             \<and> ch_auxCurrentFault (st_channels (readUdpStatus opts n e1 e2 e3) ! i)
                 = (if u32le d3 (8 + 4 * i) = 0 then None
                    else Some (bit (u32le d3 (8 + 4 * i)) 5))
             \<and> ch_otherFault (st_channels (readUdpStatus opts n e1 e2 e3) ! i)
                 = (if u32le d3 (8 + 4 * i) = 0 then None
                    else Some (bit (u32le d3 (8 + 4 * i)) 6))
             \<and> ch_lowLoad (st_channels (readUdpStatus opts n e1 e2 e3) ! i)
                 = (if u32le d3 (8 + 4 * i) = 0 then None
                    else Some (bit (u32le d3 (8 + 4 * i)) 7))))
   \<and> (ex_result (alarms_exchange opts e3) = Inr d3 \<and> d3 \<noteq> [] \<and> d3 ! 0 = 1 \<and> length d3 < 8
        \<longrightarrow> st_fault (readUdpStatus opts n e1 e2 e3) = Some False)"
proof -
  have p1: "length (st_channels (readUdpStatus opts n e1 e2 e3)) = n"
    by (rule readUdpStatus_length)
  have p2: "st_power (readUdpStatus opts n e1 e2 e3) = st_power (readUdpStatus opts n e1 e2' e3')"
    by (simp add: readUdpStatus_power)
  have p3: "st_fault (readUdpStatus opts n e1 e2 e3) = st_fault (readUdpStatus opts n e1' e2' e3)"
    by (simp add: readUdpStatus_fault)
  have p4: "\<forall>i<n. ch_mute (st_channels (readUdpStatus opts n e1 e2 e3) ! i)
               = ch_mute (st_channels (readUdpStatus opts n e1' e2 e3') ! i)
            \<and> ch_gain (st_channels (readUdpStatus opts n e1 e2 e3) ! i)
               = ch_gain (st_channels (readUdpStatus opts n e1' e2 e3') ! i)"
    by (simp add: readUdpStatus_gm_fields)
  have p5: "\<forall>i<n. ch_clip (st_channels (readUdpStatus opts n e1 e2 e3) ! i)
               = ch_clip (st_channels (readUdpStatus opts n e1' e2' e3) ! i)
            \<and> ch_thermalSOA (st_channels (readUdpStatus opts n e1 e2 e3) ! i)
               = ch_thermalSOA (st_channels (readUdpStatus opts n e1' e2' e3) ! i)
            \<and> ch_overTemp (st_channels (readUdpStatus opts n e1 e2 e3) ! i)
               = ch_overTemp (st_channels (readUdpStatus opts n e1' e2' e3) ! i)
            \<and> ch_railFault (st_channels (readUdpStatus opts n e1 e2 e3) ! i)
               = ch_railFault (st_channels (readUdpStatus opts n e1' e2' e3) ! i)
            \<and> ch_auxCurrentFault (st_channels (readUdpStatus opts n e1 e2 e3) ! i)
               = ch_auxCurrentFault (st_channels (readUdpStatus opts n e1' e2' e3) ! i)
            \<and> ch_otherFault (st_channels (readUdpStatus opts n e1 e2 e3) ! i)
               = ch_otherFault (st_channels (readUdpStatus opts n e1' e2' e3) ! i)
            \<and> ch_lowLoad (st_channels (readUdpStatus opts n e1 e2 e3) ! i)
               = ch_lowLoad (st_channels (readUdpStatus opts n e1' e2' e3) ! i)"
    by (simp add: readUdpStatus_alarm_fields)
  have p6: "isl (ex_result (standby_exchange opts e1))
        \<longrightarrow> st_power (readUdpStatus opts n e1 e2 e3) = None"
    by (auto simp add: readUdpStatus_power try_merge_def initial_status_def isl_def)
  have p7: "isl (ex_result (readgm_exchange opts e2))
        \<longrightarrow> (\<forall>i<n. ch_mute (st_channels (readUdpStatus opts n e1 e2 e3) ! i) = None
                 \<and> ch_gain (st_channels (readUdpStatus opts n e1 e2 e3) ! i) = None)"
    by (auto simp add: readUdpStatus_gm_fields gm_effect_def empty_channel_def isl_def)
  have p8: "isl (ex_result (alarms_exchange opts e3))
        \<longrightarrow> st_fault (readUdpStatus opts n e1 e2 e3) = None
            \<and> (\<forall>i<n. ch_clip (st_channels (readUdpStatus opts n e1 e2 e3) ! i) = None
                 \<and> ch_thermalSOA (st_channels (readUdpStatus opts n e1 e2 e3) ! i) = None
                 \<and> ch_overTemp (st_channels (readUdpStatus opts n e1 e2 e3) ! i) = None
                 \<and> ch_railFault (st_channels (readUdpStatus opts n e1 e2 e3) ! i) = None
                 \<and> ch_auxCurrentFault (st_channels (readUdpStatus opts n e1 e2 e3) ! i) = None
                 \<and> ch_otherFault (st_channels (readUdpStatus opts n e1 e2 e3) ! i) = None
                 \<and> ch_lowLoad (st_channels (readUdpStatus opts n e1 e2 e3) ! i) = None)"
    by (auto simp add: readUdpStatus_fault readUdpStatus_alarm_fields alarm_effect_def
          empty_channel_def isl_def)
  have p9: "ex_result (standby_exchange opts e1) = Inr d1 \<and> 2 \<le> length d1 \<and> d1 ! 0 = 1
        \<longrightarrow> st_power (readUdpStatus opts n e1 e2 e3) = Some (d1 ! 1 = 2)"
    by (auto simp add: readUdpStatus_power try_merge_def merge_standby_def parseStandbyData_def
          Let_def unat_byte_eq_2)
  have p10: "ex_result (readgm_exchange opts e2) = Inr d2 \<and> 2 \<le> length d2 \<and> d2 ! 0 = 1
        \<longrightarrow> (\<forall>i<min (min (unat (d2 ! 1)) n) ((length d2 - 2) div 6).
               ch_mute (st_channels (readUdpStatus opts n e1 e2 e3) ! i) = Some (d2 ! (2 + 6 * i + 5) = 1)
             \<and> ch_gain (st_channels (readUdpStatus opts n e1 e2 e3) ! i)
                 = Some (real_of_int (spec_int16 (d2 ! (2 + 6 * i + 2)) (d2 ! (2 + 6 * i + 3)))
                     / 100))"
  proof (intro impI allI)
    fix i
    assume h: "ex_result (readgm_exchange opts e2) = Inr d2 \<and> 2 \<le> length d2 \<and> d2 ! 0 = 1"
      and i: "i < min (min (unat (d2 ! 1)) n) ((length d2 - 2) div 6)"
    from i have "i < n" by simp
    then show "ch_mute (st_channels (readUdpStatus opts n e1 e2 e3) ! i) = Some (d2 ! (2 + 6 * i + 5) = 1)
             \<and> ch_gain (st_channels (readUdpStatus opts n e1 e2 e3) ! i)
                 = Some (real_of_int (spec_int16 (d2 ! (2 + 6 * i + 2)) (d2 ! (2 + 6 * i + 3)))
                     / 100)"
      using h i
      by (simp only: readUdpStatus_gm_fields gm_effect_ok [of _ d2] gm_update_spec_channel
            simp_thms)
  qed
  have p11: "ex_result (alarms_exchange opts e3) = Inr d3 \<and> 8 \<le> length d3 \<and> d3 ! 0 = 1
        \<longrightarrow> st_fault (readUdpStatus opts n e1 e2 e3)
              = Some (u32le d3 4 \<noteq> 0
                  \<or> (\<exists>j<min 8 ((length d3 - 8) div 4). u32le d3 (8 + 4 * j) \<noteq> 0))
            \<and> (\<forall>i<min n (min 8 ((length d3 - 8) div 4)).
               ch_clip (st_channels (readUdpStatus opts n e1 e2 e3) ! i)
                 = (if u32le d3 (8 + 4 * i) = 0 then None
                    else Some (bit (u32le d3 (8 + 4 * i)) 0))
             \<and> ch_thermalSOA (st_channels (readUdpStatus opts n e1 e2 e3) ! i)
                 = (if u32le d3 (8 + 4 * i) = 0 then None
                    else Some (bit (u32le d3 (8 + 4 * i)) 1))
             \<and> ch_overTemp (st_channels (readUdpStatus opts n e1 e2 e3) ! i)
                 = (if u32le d3 (8 + 4 * i) = 0 then None
                    else Some (bit (u32le d3 (8 + 4 * i)) 3))
             \<and> ch_railFault (st_channels (readUdpStatus opts n e1 e2 e3) ! i)
                 = (if u32le d3 (8 + 4 * i) = 0 then None
                    else Some (bit (u32le d3 (8 + 4 * i)) 4))
             \<and> ch_auxCurrentFault (st_channels (readUdpStatus opts n e1 e2 e3) ! i)
                 = (if u32le d3 (8 + 4 * i) = 0 then None
                    else Some (bit (u32le d3 (8 + 4 * i)) 5))
             \<and> ch_otherFault (st_channels (readUdpStatus opts n e1 e2 e3) ! i)
                 = (if u32le d3 (8 + 4 * i) = 0 then None
                    else Some (bit (u32le d3 (8 + 4 * i)) 6))
             \<and> ch_lowLoad (st_channels (readUdpStatus opts n e1 e2 e3) ! i)
                 = (if u32le d3 (8 + 4 * i) = 0 then None
                    else Some (bit (u32le d3 (8 + 4 * i)) 7)))"
  proof (rule impI)
    assume h: "ex_result (alarms_exchange opts e3) = Inr d3 \<and> 8 \<le> length d3 \<and> d3 ! 0 = 1"
    have "(\<exists>w\<in>set (map (\<lambda>j. u32le d3 (8 + 4 * j)) [0..<min 8 ((length d3 - 8) div 4)]).
            w \<noteq> 0)
        = (\<exists>j<min 8 ((length d3 - 8) div 4). u32le d3 (8 + 4 * j) \<noteq> 0)"
      by auto
    then have fault: "st_fault (readUdpStatus opts n e1 e2 e3)
              = Some (u32le d3 4 \<noteq> 0
                  \<or> (\<exists>j<min 8 ((length d3 - 8) div 4). u32le d3 (8 + 4 * j) \<noteq> 0))"
      using h by (simp add: readUdpStatus_fault parseReadAllAlarms2Data_closed list_ex_iff)
    have chans: "\<forall>i<min n (min 8 ((length d3 - 8) div 4)).
       ch_clip (st_channels (readUdpStatus opts n e1 e2 e3) ! i)
                 = (if u32le d3 (8 + 4 * i) = 0 then None
                    else Some (bit (u32le d3 (8 + 4 * i)) 0))
             \<and> ch_thermalSOA (st_channels (readUdpStatus opts n e1 e2 e3) ! i)
                 = (if u32le d3 (8 + 4 * i) = 0 then None
                    else Some (bit (u32le d3 (8 + 4 * i)) 1))
             \<and> ch_overTemp (st_channels (readUdpStatus opts n e1 e2 e3) ! i)
                 = (if u32le d3 (8 + 4 * i) = 0 then None
                    else Some (bit (u32le d3 (8 + 4 * i)) 3))
             \<and> ch_railFault (st_channels (readUdpStatus opts n e1 e2 e3) ! i)
                 = (if u32le d3 (8 + 4 * i) = 0 then None
                    else Some (bit (u32le d3 (8 + 4 * i)) 4))
             \<and> ch_auxCurrentFault (st_channels (readUdpStatus opts n e1 e2 e3) ! i)
                 = (if u32le d3 (8 + 4 * i) = 0 then None
                    else Some (bit (u32le d3 (8 + 4 * i)) 5))
             \<and> ch_otherFault (st_channels (readUdpStatus opts n e1 e2 e3) ! i)
                 = (if u32le d3 (8 + 4 * i) = 0 then None
                    else Some (bit (u32le d3 (8 + 4 * i)) 6))
             \<and> ch_lowLoad (st_channels (readUdpStatus opts n e1 e2 e3) ! i)
                 = (if u32le d3 (8 + 4 * i) = 0 then None
                    else Some (bit (u32le d3 (8 + 4 * i)) 7))"
    proof (intro allI impI)
      fix i
      assume i: "i < min n (min 8 ((length d3 - 8) div 4))"
      from i have lt: "i < n" "i < min 8 ((length d3 - 8) div 4)" by simp_all
      have eff: "alarm_effect (alarms_exchange opts e3) n i empty_channel
          = (if u32le d3 (8 + 4 * i) = 0 then empty_channel
             else alarm_flags (u32le d3 (8 + 4 * i)) empty_channel)"
        using h lt by (simp add: alarm_effect_def parseReadAllAlarms2Data_closed)
      show "ch_clip (st_channels (readUdpStatus opts n e1 e2 e3) ! i)
                 = (if u32le d3 (8 + 4 * i) = 0 then None
                    else Some (bit (u32le d3 (8 + 4 * i)) 0))
             \<and> ch_thermalSOA (st_channels (readUdpStatus opts n e1 e2 e3) ! i)
                 = (if u32le d3 (8 + 4 * i) = 0 then None
                    else Some (bit (u32le d3 (8 + 4 * i)) 1))
             \<and> ch_overTemp (st_channels (readUdpStatus opts n e1 e2 e3) ! i)
                 = (if u32le d3 (8 + 4 * i) = 0 then None
                    else Some (bit (u32le d3 (8 + 4 * i)) 3))
             \<and> ch_railFault (st_channels (readUdpStatus opts n e1 e2 e3) ! i)
                 = (if u32le d3 (8 + 4 * i) = 0 then None
                    else Some (bit (u32le d3 (8 + 4 * i)) 4))
             \<and> ch_auxCurrentFault (st_channels (readUdpStatus opts n e1 e2 e3) ! i)
                 = (if u32le d3 (8 + 4 * i) = 0 then None
                    else Some (bit (u32le d3 (8 + 4 * i)) 5))
             \<and> ch_otherFault (st_channels (readUdpStatus opts n e1 e2 e3) ! i)
                 = (if u32le d3 (8 + 4 * i) = 0 then None
                    else Some (bit (u32le d3 (8 + 4 * i)) 6))
             \<and> ch_lowLoad (st_channels (readUdpStatus opts n e1 e2 e3) ! i)
                 = (if u32le d3 (8 + 4 * i) = 0 then None
                    else Some (bit (u32le d3 (8 + 4 * i)) 7))"
        unfolding readUdpStatus_alarm_fields [OF lt(1)] eff
        by (simp add: alarm_flags_def alarm_bit_iff empty_channel_def)
    qed
    from fault chans show "st_fault (readUdpStatus opts n e1 e2 e3)
              = Some (u32le d3 4 \<noteq> 0
                  \<or> (\<exists>j<min 8 ((length d3 - 8) div 4). u32le d3 (8 + 4 * j) \<noteq> 0))
            \<and> (\<forall>i<min n (min 8 ((length d3 - 8) div 4)).
               ch_clip (st_channels (readUdpStatus opts n e1 e2 e3) ! i)
                 = (if u32le d3 (8 + 4 * i) = 0 then None
                    else Some (bit (u32le d3 (8 + 4 * i)) 0))
             \<and> ch_thermalSOA (st_channels (readUdpStatus opts n e1 e2 e3) ! i)
                 = (if u32le d3 (8 + 4 * i) = 0 then None
                    else Some (bit (u32le d3 (8 + 4 * i)) 1))
             \<and> ch_overTemp (st_channels (readUdpStatus opts n e1 e2 e3) ! i)
                 = (if u32le d3 (8 + 4 * i) = 0 then None
                    else Some (bit (u32le d3 (8 + 4 * i)) 3))
             \<and> ch_railFault (st_channels (readUdpStatus opts n e1 e2 e3) ! i)
                 = (if u32le d3 (8 + 4 * i) = 0 then None
                    else Some (bit (u32le d3 (8 + 4 * i)) 4))
             \<and> ch_auxCurrentFault (st_channels (readUdpStatus opts n e1 e2 e3) ! i)
                 = (if u32le d3 (8 + 4 * i) = 0 then None
                    else Some (bit (u32le d3 (8 + 4 * i)) 5))
             \<and> ch_otherFault (st_channels (readUdpStatus opts n e1 e2 e3) ! i)
                 = (if u32le d3 (8 + 4 * i) = 0 then None
                    else Some (bit (u32le d3 (8 + 4 * i)) 6))
             \<and> ch_lowLoad (st_channels (readUdpStatus opts n e1 e2 e3) ! i)
                 = (if u32le d3 (8 + 4 * i) = 0 then None
                    else Some (bit (u32le d3 (8 + 4 * i)) 7)))" by (rule conjI)
  qed
  have p12: "ex_result (alarms_exchange opts e3) = Inr d3 \<and> d3 \<noteq> [] \<and> d3 ! 0 = 1 \<and> length d3 < 8
        \<longrightarrow> st_fault (readUdpStatus opts n e1 e2 e3) = Some False"
    by (auto simp add: readUdpStatus_fault parseReadAllAlarms2Data_short)
  show ?thesis
    by (intro conjI; (rule p1 p2 p3 p4 p5 p6 p7 p8 p9 p10 p11 p12))
qed

theorem readUdpStatus_partial_snapshot_witness:
  "isl (ex_result (standby_exchange demo_opts silent_env))
   \<and> isl (ex_result (readgm_exchange demo_opts silent_env))
   \<and> isl (ex_result (alarms_exchange demo_opts silent_env))
   \<and> (0::nat) < 2
   \<and> length (st_channels (readUdpStatus demo_opts 2 silent_env silent_env (reply_env alarm_reply))) = 2
   \<and> st_power (readUdpStatus demo_opts 2 silent_env silent_env (reply_env alarm_reply)) = None
   \<and> ch_mute (st_channels (readUdpStatus demo_opts 2 silent_env silent_env (reply_env alarm_reply)) ! 0) = None
       \<and> ch_gain (st_channels (readUdpStatus demo_opts 2 silent_env silent_env (reply_env alarm_reply)) ! 0) = None
   \<and> st_fault (readUdpStatus demo_opts 2 silent_env silent_env silent_env) = None
       \<and> ch_clip (st_channels (readUdpStatus demo_opts 2 silent_env silent_env silent_env) ! 0) = None
   \<and> ex_result (standby_exchange demo_opts (reply_env (standby_reply 2))) = Inr [0x01, 0x02, 0, 0]
   \<and> 2 \<le> length [0x01, 0x02, 0, 0 :: byte] \<and> [0x01, 0x02, 0, 0 :: byte] ! 0 = 1
   \<and> ex_result (readgm_exchange demo_opts (reply_env gm_reply)) = Inr gm_payload
   \<and> 2 \<le> length gm_payload \<and> gm_payload ! 0 = 1
   \<and> 0 < min (min (unat (gm_payload ! 1)) 2) ((length gm_payload - 2) div 6)
   \<and> ex_result (alarms_exchange demo_opts (reply_env alarm_reply)) = Inr alarm_payload
   \<and> 8 \<le> length alarm_payload \<and> alarm_payload ! 0 = 1
   \<and> 0 < min 2 (min 8 ((length alarm_payload - 8) div 4))
   \<and> st_power (readUdpStatus demo_opts 2 (reply_env (standby_reply 2)) (reply_env gm_reply)
         (reply_env alarm_reply)) = Some True
   \<and> ch_mute (st_channels (readUdpStatus demo_opts 2 (reply_env (standby_reply 2)) (reply_env gm_reply)
         (reply_env alarm_reply)) ! 0) = Some False
       \<and> ch_gain (st_channels (readUdpStatus demo_opts 2 (reply_env (standby_reply 2)) (reply_env gm_reply)
         (reply_env alarm_reply)) ! 0) = Some 3
   \<and> st_fault (readUdpStatus demo_opts 2 (reply_env (standby_reply 2)) (reply_env gm_reply)
         (reply_env alarm_reply)) = Some True
   \<and> ch_clip (st_channels (readUdpStatus demo_opts 2 (reply_env (standby_reply 2)) (reply_env gm_reply)
         (reply_env alarm_reply)) ! 0) = Some True
       \<and> ch_overTemp (st_channels (readUdpStatus demo_opts 2 (reply_env (standby_reply 2)) (reply_env gm_reply)
         (reply_env alarm_reply)) ! 0) = Some False
       \<and> ch_lowLoad (st_channels (readUdpStatus demo_opts 2 (reply_env (standby_reply 2)) (reply_env gm_reply)
         (reply_env alarm_reply)) ! 0) = Some True"
proof -
  note T = readUdpStatus_partial_snapshot [where opts = demo_opts and n = 2
      and ?e1.0 = silent_env and ?e2.0 = silent_env and ?e3.0 = "reply_env alarm_reply"]
  note S = readUdpStatus_partial_snapshot [where opts = demo_opts and n = 2
      and ?e1.0 = silent_env and ?e2.0 = silent_env and ?e3.0 = silent_env]
  note U = readUdpStatus_partial_snapshot [where opts = demo_opts and n = 2
      and ?e1.0 = "reply_env (standby_reply 2)" and ?e2.0 = "reply_env gm_reply"
      and ?e3.0 = "reply_env alarm_reply"
      and ?d1.0 = "[0x01, 0x02, 0, 0]" and ?d2.0 = gm_payload and ?d3.0 = alarm_payload]
  note c9 = U [THEN conjunct2, THEN conjunct2, THEN conjunct2, THEN conjunct2, THEN conjunct2, THEN conjunct2, THEN conjunct2, THEN conjunct2, THEN conjunct1]
  note c10 = U [THEN conjunct2, THEN conjunct2, THEN conjunct2, THEN conjunct2, THEN conjunct2, THEN conjunct2, THEN conjunct2, THEN conjunct2, THEN conjunct2, THEN conjunct1]
  note c11 = U [THEN conjunct2, THEN conjunct2, THEN conjunct2, THEN conjunct2, THEN conjunct2, THEN conjunct2, THEN conjunct2, THEN conjunct2, THEN conjunct2, THEN conjunct2, THEN conjunct1]
  have w: "u32le alarm_payload 4 = 0" "u32le alarm_payload (8 + 4 * 0) = 131"
    by (simp_all add: u32le_def)
  have ex: "\<exists>j<min 8 ((length alarm_payload - 8) div 4). u32le alarm_payload (8 + 4 * j) \<noteq> 0"
    by (rule exI [of _ 0]) (simp add: u32le_def)
  have b: "bit (131 :: 32 word) 0" "\<not> bit (131 :: 32 word) 3" "bit (131 :: 32 word) 7"
    by (simp_all add: bit_iff_odd drop_bit_eq_div)
  have i1: "isl (ex_result (standby_exchange demo_opts silent_env))"
    by (simp add: silent_exchanges)
  have i2: "isl (ex_result (readgm_exchange demo_opts silent_env))"
    by (simp add: silent_exchanges)
  have i3: "isl (ex_result (alarms_exchange demo_opts silent_env))"
    by (simp add: silent_exchanges)
  have z: "(0::nat) < 2"
    by simp
  have len: "length (st_channels (readUdpStatus demo_opts 2 silent_env silent_env (reply_env alarm_reply))) = 2"
    by (rule T [THEN conjunct1])
  have pw: "st_power (readUdpStatus demo_opts 2 silent_env silent_env (reply_env alarm_reply)) = None"
    by (rule T [THEN conjunct2, THEN conjunct2, THEN conjunct2, THEN conjunct2, THEN conjunct2, THEN conjunct1, THEN mp, OF i1])
  have gmT: "ch_mute (st_channels (readUdpStatus demo_opts 2 silent_env silent_env (reply_env alarm_reply)) ! 0) = None
       \<and> ch_gain (st_channels (readUdpStatus demo_opts 2 silent_env silent_env (reply_env alarm_reply)) ! 0) = None"
    by (rule T [THEN conjunct2, THEN conjunct2, THEN conjunct2, THEN conjunct2, THEN conjunct2, THEN conjunct2, THEN conjunct1, THEN mp, OF i2, rule_format, OF z])
  have al: "st_fault (readUdpStatus demo_opts 2 silent_env silent_env silent_env) = None
       \<and> ch_clip (st_channels (readUdpStatus demo_opts 2 silent_env silent_env silent_env) ! 0) = None"
    using S [THEN conjunct2, THEN conjunct2, THEN conjunct2, THEN conjunct2, THEN conjunct2, THEN conjunct2, THEN conjunct2, THEN conjunct1, THEN mp, OF i3, THEN conjunct1]
      S [THEN conjunct2, THEN conjunct2, THEN conjunct2, THEN conjunct2, THEN conjunct2, THEN conjunct2, THEN conjunct2, THEN conjunct1, THEN mp, OF i3, THEN conjunct2, rule_format, OF z,
         THEN conjunct1]
    by (rule conjI)
  have h1: "ex_result (standby_exchange demo_opts (reply_env (standby_reply 2))) = Inr [0x01, 0x02, 0, 0]"
    by (rule standby_reply_exchange)
  have h1a: "2 \<le> length [0x01, 0x02, 0, 0 :: byte] \<and> [0x01, 0x02, 0, 0 :: byte] ! 0 = 1"
    by simp
  have h2: "ex_result (readgm_exchange demo_opts (reply_env gm_reply)) = Inr gm_payload"
    by (rule gm_reply_exchange)
  have h2a: "2 \<le> length gm_payload \<and> gm_payload ! 0 = 1"
    by simp
  have h2b: "0 < min (min (unat (gm_payload ! 1)) 2) ((length gm_payload - 2) div 6)"
    by simp
  have h3: "ex_result (alarms_exchange demo_opts (reply_env alarm_reply)) = Inr alarm_payload"
    by (rule alarm_reply_exchange)
  have h3a: "8 \<le> length alarm_payload \<and> alarm_payload ! 0 = 1"
    by simp
  have h3b: "0 < min 2 (min 8 ((length alarm_payload - 8) div 4))"
    by simp
  have pwU: "st_power (readUdpStatus demo_opts 2 (reply_env (standby_reply 2)) (reply_env gm_reply)
         (reply_env alarm_reply)) = Some True"
    using c9 [rule_format, OF conjI [OF h1 h1a]] by simp
  have gmU: "ch_mute (st_channels (readUdpStatus demo_opts 2 (reply_env (standby_reply 2)) (reply_env gm_reply)
         (reply_env alarm_reply)) ! 0) = Some False
       \<and> ch_gain (st_channels (readUdpStatus demo_opts 2 (reply_env (standby_reply 2)) (reply_env gm_reply)
         (reply_env alarm_reply)) ! 0) = Some 3"
    using c10 [rule_format, OF conjI [OF h2 h2a] h2b] by (simp add: spec_int16_arith)
  have ftU: "st_fault (readUdpStatus demo_opts 2 (reply_env (standby_reply 2)) (reply_env gm_reply)
         (reply_env alarm_reply)) = Some True"
    using c11 [THEN mp, OF conjI [OF h3 h3a], THEN conjunct1] ex by simp
  have clU: "ch_clip (st_channels (readUdpStatus demo_opts 2 (reply_env (standby_reply 2)) (reply_env gm_reply)
         (reply_env alarm_reply)) ! 0) = Some True
       \<and> ch_overTemp (st_channels (readUdpStatus demo_opts 2 (reply_env (standby_reply 2)) (reply_env gm_reply)
         (reply_env alarm_reply)) ! 0) = Some False
       \<and> ch_lowLoad (st_channels (readUdpStatus demo_opts 2 (reply_env (standby_reply 2)) (reply_env gm_reply)
         (reply_env alarm_reply)) ! 0) = Some True"
    using c11 [THEN mp, OF conjI [OF h3 h3a], THEN conjunct2, rule_format, OF h3b] w b by simp
  show ?thesis
    by (intro conjI; (rule i1 i2 i3 z len pw h1 h2 h2b h3 h3b pwU ftU
      gmT [THEN conjunct1] gmT [THEN conjunct2] al [THEN conjunct1] al [THEN conjunct2]
      h1a [THEN conjunct1] h1a [THEN conjunct2] h2a [THEN conjunct1] h2a [THEN conjunct2]
      h3a [THEN conjunct1] h3a [THEN conjunct2] gmU [THEN conjunct1] gmU [THEN conjunct2]
      clU [THEN conjunct1] clU [THEN conjunct2, THEN conjunct1]
      clU [THEN conjunct2, THEN conjunct2]))
qed

end
